theory Spec2Isabelle
  imports Complex_Main "HOL-Library.Char_ord" "HOL-Library.List_Lexorder"
begin

section \<open>Values, texts and exceptions\<close>

text \<open>
  Python strings are HOL strings. Ticker symbols are ASCII, and \<open>str.upper\<close> is modelled
  on the ASCII letters: \<open>a\<close> .. \<open>z\<close> go to \<open>A\<close> .. \<open>Z\<close>, every other character stays.
  Python compares strings code point by code point; that is the lexicographic order on
  character lists over the order of character codes.
\<close>

definition upper_char :: "char \<Rightarrow> char" where
  "upper_char c =
     (if (97::nat) \<le> of_char c \<and> of_char c \<le> (122::nat)
      then char_of (of_char c - (32::nat)) else c)"

definition upper :: "string \<Rightarrow> string" where
  "upper s = map upper_char s"

text \<open>
  The value \<open>json.load\<close> returns: None, a bool, an int, a float, a str, a list or a dict.
  A float is the real number it stands for (infinities and NaN are outside the model). A dict
  is the association list of its items in insertion order, its keys distinct.
\<close>

datatype json =
    JNull
  | JBool bool
  | JInt int
  | JFloat real
  | JStr string
  | JArr "json list"
  | JObj "(string \<times> json) list"

text \<open>
  A text (the content of a file, the body of a response) is represented by what it holds:
  a JSON document, the rows the csv writer wrote, or anything else. \<open>json.dump\<close> writes the
  text of a value and \<open>json.load\<close> of that text returns the value; the CSV text written by
  \<open>export_csv\<close> starts with its header row and is no JSON document.
\<close>

datatype content = Json json | Csv "json list list" | Garbage

text \<open>
  The exceptions that can travel through the program. \<open>URLError\<close> and its subclass
  \<open>HTTPError\<close> carry \<open>str(exc)\<close>; \<open>TimeoutError\<close> is the socket timeout that
  \<open>urlopen\<close> and \<open>response.read\<close> raise while waiting for the response, a subclass of
  OSError and not of URLError; \<open>JSONDecodeError\<close> is a subclass of ValueError;
  \<open>OverflowError\<close> is what \<open>float\<close> raises on an int beyond the range of a double;
  \<open>RuntimeError\<close> carries its message and its cause.
\<close>

datatype exn =
    URLError string
  | HTTPError string
  | TimeoutError string
  | JSONDecodeError
  | ValueError string
  | AttributeError
  | TypeError
  | OverflowError
  | RuntimeError string exn

section \<open>The environment\<close>

record request =
  url :: string
  headers :: "(string \<times> string) list"
  data :: "string option"

record datetime =
  year :: nat
  month :: nat
  day :: nat
  hour :: nat
  minute :: nat
  second :: nat
  microsecond :: nat

text \<open>
  What the program takes from outside: the home directory, the answer of the network to a
  request with a timeout, the clock, and the two library conversions that are not
  reproduced here (\<open>str\<close> of a float, list or dict; \<open>float\<close> of a str).
\<close>

record env =
  home :: string
  urlopen :: "request \<Rightarrow> nat \<Rightarrow> exn + content"
  utcnow :: datetime
  py_repr :: "json \<Rightarrow> string"
  float_of_str :: "string \<Rightarrow> real option"

record Quote =
  symbol :: string
  price :: real
  currency :: json

type_synonym quotes = "(string \<times> Quote) list"

datatype line =
    Line string
  | QuoteLine string real string
  | StatLine string real

datatype errline = ErrLine string | Traceback exn

text \<open>
  The state the program works on: the files by path, the two output streams, and the log
  of the requests handed to \<open>urlopen\<close>, each with its timeout. A line whose text
  holds a formatted float keeps the float as it is.
\<close>

record world =
  files :: "string \<Rightarrow> content option"
  stdout :: "line list"
  stderr :: "errline list"
  sent :: "(request \<times> nat) list"

section \<open>Library functions\<close>

fun digit_char :: "nat \<Rightarrow> char" where
  "digit_char n = char_of (48 + n mod 10)"

fun str_nat :: "nat \<Rightarrow> string" where
  "str_nat n = (if n < 10 then [digit_char n] else str_nat (n div 10) @ [digit_char n])"

declare str_nat.simps [simp del]

definition str_int :: "int \<Rightarrow> string" where
  "str_int i = (if i < 0 then CHR ''-'' # str_nat (nat (- i)) else str_nat (nat i))"

definition py_str :: "env \<Rightarrow> json \<Rightarrow> string" where
  "py_str e j =
     (case j of
        JStr s \<Rightarrow> s
      | JNull \<Rightarrow> ''None''
      | JBool b \<Rightarrow> (if b then ''True'' else ''False'')
      | JInt i \<Rightarrow> str_int i
      | _ \<Rightarrow> py_repr e j)"

fun join :: "string \<Rightarrow> string list \<Rightarrow> string" where
  "join sep [] = []"
| "join sep [x] = x"
| "join sep (x # y # ys) = x @ sep @ join sep (y # ys)"

definition always_safe :: "char \<Rightarrow> bool" where
  "always_safe c =
     (c \<in> set ''ABCDEFGHIJKLMNOPQRSTUVWXYZabcdefghijklmnopqrstuvwxyz0123456789_.-~'')"

definition hex_digit :: "nat \<Rightarrow> char" where
  "hex_digit n = ''0123456789ABCDEF'' ! (n mod 16)"

definition quote_char :: "char \<Rightarrow> string" where
  "quote_char c =
     (if always_safe c then [c]
      else if c = CHR '' '' then ''+''
      else [CHR ''%'', hex_digit (of_char c div 16), hex_digit (of_char c)])"

definition quote_plus :: "string \<Rightarrow> string" where
  "quote_plus s = concat (map quote_char s)"

definition urlencode :: "(string \<times> string) list \<Rightarrow> string" where
  "urlencode query = join ''&'' (map (\<lambda>(k, v). quote_plus k @ ''='' @ quote_plus v) query)"

definition get_method :: "request \<Rightarrow> string" where
  "get_method r = (if data r = None then ''GET'' else ''POST'')"

definition truthy :: "json \<Rightarrow> bool" where
  "truthy j =
     (case j of
        JNull \<Rightarrow> False
      | JBool b \<Rightarrow> b
      | JInt i \<Rightarrow> i \<noteq> 0
      | JFloat x \<Rightarrow> x \<noteq> 0
      | JStr s \<Rightarrow> s \<noteq> []
      | JArr xs \<Rightarrow> xs \<noteq> []
      | JObj d \<Rightarrow> d \<noteq> [])"

text \<open>\<open>d.get(key, default)\<close> on any value: only a dict has the method.\<close>

definition py_get :: "json \<Rightarrow> string \<Rightarrow> json \<Rightarrow> exn + json" where
  "py_get j k dflt =
     (case j of
        JObj d \<Rightarrow> (case map_of d k of None \<Rightarrow> Inr dflt | Some v \<Rightarrow> Inr v)
      | _ \<Rightarrow> Inl AttributeError)"

text \<open>What a \<open>for\<close> loop runs over: the items of a list, the characters of a str, the keys of a dict.\<close>

definition py_iter :: "json \<Rightarrow> exn + json list" where
  "py_iter j =
     (case j of
        JArr xs \<Rightarrow> Inr xs
      | JStr s \<Rightarrow> Inr (map (\<lambda>c. JStr [c]) s)
      | JObj d \<Rightarrow> Inr (map (\<lambda>kv. JStr (fst kv)) d)
      | _ \<Rightarrow> Inl TypeError)"

text \<open>
  \<open>float\<close> of an int: the nearest double, a tie going to the even significand of 53 bits,
  and OverflowError when that would be \<open>2 ^ 1024\<close> or more.
\<close>

fun bit_length :: "nat \<Rightarrow> nat" where
  "bit_length n = (if n = 0 then 0 else Suc (bit_length (n div 2)))"

declare bit_length.simps [simp del]

definition round_to_double :: "nat \<Rightarrow> nat" where
  "round_to_double a =
     (if bit_length a \<le> 53 then a
      else
        let sh = bit_length a - 53;
            q = a div 2 ^ sh;
            r = a mod 2 ^ sh;
            half = 2 ^ (sh - 1)
        in (if r > half \<or> (r = half \<and> odd q) then q + 1 else q) * 2 ^ sh)"

definition float_of_int :: "int \<Rightarrow> exn + real" where
  "float_of_int i =
     (let m = round_to_double (nat \<bar>i\<bar>)
      in if m \<ge> 2 ^ 1024 then Inl OverflowError
         else Inr (if i < 0 then - real m else real m))"

definition py_float :: "env \<Rightarrow> json \<Rightarrow> exn + real" where
  "py_float e j =
     (case j of
        JInt i \<Rightarrow> float_of_int i
      | JFloat x \<Rightarrow> Inr x
      | JBool b \<Rightarrow> Inr (if b then 1 else 0)
      | JStr s \<Rightarrow>
          (case float_of_str e s of
             None \<Rightarrow> Inl (ValueError (''could not convert string to float: '' @ py_repr e j))
           | Some x \<Rightarrow> Inr x)
      | _ \<Rightarrow> Inl TypeError)"

text \<open>\<open>d[k] = v\<close> on a dict: a key already there keeps its place.\<close>

fun dict_set :: "('k \<times> 'v) list \<Rightarrow> 'k \<Rightarrow> 'v \<Rightarrow> ('k \<times> 'v) list" where
  "dict_set [] k v = [(k, v)]"
| "dict_set ((k', v') # d) k v =
     (if k' = k then (k, v) # d else (k', v') # dict_set d k v)"

definition pad2 :: "nat \<Rightarrow> string" where
  "pad2 n = (if n < 10 then ''0'' @ str_nat n else str_nat n)"

definition pad4 :: "nat \<Rightarrow> string" where
  "pad4 n = replicate (4 - length (str_nat n)) CHR ''0'' @ str_nat n"

text \<open>\<open>isoformat(timespec="seconds")\<close> of a naive datetime.\<close>

definition isoformat_seconds :: "datetime \<Rightarrow> string" where
  "isoformat_seconds d =
     pad4 (year d) @ ''-'' @ pad2 (month d) @ ''-'' @ pad2 (day d) @ ''T''
       @ pad2 (hour d) @ '':'' @ pad2 (minute d) @ '':'' @ pad2 (second d)"

definition json_load :: "content \<Rightarrow> exn + json" where
  "json_load t = (case t of Json j \<Rightarrow> Inr j | _ \<Rightarrow> Inl JSONDecodeError)"

definition sorted_set :: "string list \<Rightarrow> string list" where
  "sorted_set xs = sort (remdups xs)"

section \<open>Watchlist store\<close>

definition WATCHLIST_PATH :: "env \<Rightarrow> string" where
  "WATCHLIST_PATH e = home e @ ''/.cli_watchlist.json''"

definition load_watchlist :: "env \<Rightarrow> string \<Rightarrow> world \<Rightarrow> exn + string list" where
  "load_watchlist e path w =
     (case files w path of
        None \<Rightarrow> Inr []
      | Some t \<Rightarrow>
          (case json_load t of
             Inl exc \<Rightarrow> Inl exc
           | Inr d \<Rightarrow>
               (case d of
                  JArr items \<Rightarrow> Inr (map (\<lambda>item. upper (py_str e item)) items)
                | _ \<Rightarrow> Inl (ValueError (''Invalid watchlist format in '' @ path)))))"

definition save_watchlist :: "string list \<Rightarrow> string \<Rightarrow> world \<Rightarrow> world" where
  "save_watchlist tickers path w =
     w\<lparr>files := (files w)(path \<mapsto> Json (JArr (map JStr (sorted_set tickers))))\<rparr>"

section \<open>Quote service client\<close>

definition YAHOO_QUOTE_URL :: string where
  "YAHOO_QUOTE_URL = ''https://query1.finance.yahoo.com/v7/finance/quote''"

definition is_URLError :: "exn \<Rightarrow> bool" where
  "is_URLError exc = (case exc of URLError _ \<Rightarrow> True | HTTPError _ \<Rightarrow> True | _ \<Rightarrow> False)"

text \<open>\<open>str(exc)\<close>, for the exceptions that carry their text.\<close>

definition str_exn :: "exn \<Rightarrow> string" where
  "str_exn exc =
     (case exc of
        URLError m \<Rightarrow> m
      | HTTPError m \<Rightarrow> m
      | TimeoutError m \<Rightarrow> m
      | ValueError m \<Rightarrow> m
      | RuntimeError m _ \<Rightarrow> m
      | _ \<Rightarrow> [])"

text \<open>The body of the loop over the result entries.\<close>

definition entry_step :: "env \<Rightarrow> json \<Rightarrow> quotes \<Rightarrow> exn + quotes" where
  "entry_step e entry qs =
     (case py_get entry ''symbol'' JNull of
        Inl exc \<Rightarrow> Inl exc
      | Inr symb \<Rightarrow>
          (case py_get entry ''regularMarketPrice'' JNull of
             Inl exc \<Rightarrow> Inl exc
           | Inr pr \<Rightarrow>
               if truthy symb \<and> pr \<noteq> JNull then
                 (case symb of
                    JStr s \<Rightarrow>
                      (case py_float e pr of
                         Inl exc \<Rightarrow> Inl exc
                       | Inr p \<Rightarrow>
                           (case py_get entry ''currency'' JNull of
                              Inl exc \<Rightarrow> Inl exc
                            | Inr cur \<Rightarrow>
                                Inr (dict_set qs (upper s)
                                       \<lparr>symbol = upper s, price = p, currency = cur\<rparr>)))
                  | _ \<Rightarrow> Inl AttributeError)
               else Inr qs))"

fun entries_loop :: "env \<Rightarrow> json list \<Rightarrow> quotes \<Rightarrow> exn + quotes" where
  "entries_loop e [] qs = Inr qs"
| "entries_loop e (entry # rest) qs =
     (case entry_step e entry qs of
        Inl exc \<Rightarrow> Inl exc
      | Inr qs' \<Rightarrow> entries_loop e rest qs')"

definition parse_payload :: "env \<Rightarrow> json \<Rightarrow> exn + quotes" where
  "parse_payload e payload =
     (case py_get payload ''quoteResponse'' (JObj []) of
        Inl exc \<Rightarrow> Inl exc
      | Inr qr \<Rightarrow>
          (case py_get qr ''result'' (JArr []) of
             Inl exc \<Rightarrow> Inl exc
           | Inr results \<Rightarrow>
               (case py_iter results of
                  Inl exc \<Rightarrow> Inl exc
                | Inr entries \<Rightarrow> entries_loop e entries [])))"

text \<open>The request \<open>fetch_quotes\<close> builds for a list of tickers; it has no data, so it is a GET.\<close>

definition quote_request :: "string list \<Rightarrow> request" where
  "quote_request tickers =
     (let params = urlencode [(''symbols'', join '','' tickers)]
      in \<lparr>url = YAHOO_QUOTE_URL @ ''?'' @ params,
          headers = [(''User-Agent'', ''CLItool/1.0'')],
          data = None\<rparr>)"

definition fetch_quotes :: "env \<Rightarrow> string list \<Rightarrow> world \<Rightarrow> (exn + quotes) \<times> world" where
  "fetch_quotes e tickers w =
     (if tickers = [] then (Inr [], w)
      else
        let request = quote_request tickers;
            w' = w\<lparr>sent := sent w @ [(request, 15)]\<rparr>
        in (case urlopen e request 15 of
              Inl exc \<Rightarrow>
                if is_URLError exc
                then (Inl (RuntimeError (''Failed to fetch quotes: '' @ str_exn exc) exc), w')
                else (Inl exc, w')
            | Inr body \<Rightarrow>
                (case json_load body of
                   Inl exc \<Rightarrow> (Inl exc, w')
                 | Inr payload \<Rightarrow> (parse_payload e payload, w'))))"

section \<open>Presentation\<close>

definition print :: "line \<Rightarrow> world \<Rightarrow> world" where
  "print l w = w\<lparr>stdout := stdout w @ [l]\<rparr>"

definition print_summary :: "quotes \<Rightarrow> world \<Rightarrow> world" where
  "print_summary qs w =
     (if qs = [] then print (Line ''No quotes available.'') w
      else
        let prices = map (\<lambda>kv. price (snd kv)) qs
        in w\<lparr>stdout := stdout w @
              [Line [], Line ''Summary'', Line ''======='',
               Line (''Count: '' @ str_nat (length prices)),
               StatLine ''Min:   '' (fold min (tl prices) (hd prices)),
               StatLine ''Max:   '' (fold max (tl prices) (hd prices)),
               StatLine ''Avg:   '' (sum_list prices / real (length prices))]\<rparr>)"

definition print_quotes :: "env \<Rightarrow> quotes \<Rightarrow> world \<Rightarrow> world" where
  "print_quotes e qs w =
     (if qs = [] then w
      else w\<lparr>stdout := stdout w @ [Line [], Line ''Quotes'', Line ''======''] @
             concat (map (\<lambda>k. case map_of qs k of
                                 None \<Rightarrow> []
                               | Some q \<Rightarrow>
                                   [QuoteLine (symbol q) (price q)
                                      (if truthy (currency q)
                                       then '' '' @ py_str e (currency q) else [])])
                         (sort (map fst qs)))\<rparr>)"

definition csv_header :: "json list" where
  "csv_header = [JStr ''symbol'', JStr ''price'', JStr ''currency'', JStr ''timestamp'']"

definition csv_row :: "string \<Rightarrow> Quote \<Rightarrow> json list" where
  "csv_row timestamp q =
     [JStr (symbol q), JFloat (price q),
      (if truthy (currency q) then currency q else JStr []), JStr timestamp]"

definition export_csv :: "env \<Rightarrow> quotes \<Rightarrow> string \<Rightarrow> world \<Rightarrow> world" where
  "export_csv e qs path w =
     (if qs = [] then print (Line ''No quotes to export.'') w
      else
        let timestamp = isoformat_seconds (utcnow e) @ ''Z'';
            rows = csv_header # map (\<lambda>kv. csv_row timestamp (snd kv)) qs
        in print (Line (''CSV exported to '' @ path))
             (w\<lparr>files := (files w)(path \<mapsto> Csv rows)\<rparr>))"

section \<open>Commands\<close>

definition add_tickers :: "env \<Rightarrow> string list \<Rightarrow> world \<Rightarrow> exn option \<times> world" where
  "add_tickers e tickers w =
     (case load_watchlist e (WATCHLIST_PATH e) w of
        Inl exc \<Rightarrow> (Some exc, w)
      | Inr existing \<Rightarrow>
          let additions = map upper tickers;
              w' = save_watchlist (existing @ additions) (WATCHLIST_PATH e) w
          in (None,
              print (Line (''Added '' @ str_nat (length additions) @ '' ticker(s) to watchlist.'')) w'))"

definition remove_tickers :: "env \<Rightarrow> string list \<Rightarrow> world \<Rightarrow> exn option \<times> world" where
  "remove_tickers e tickers w =
     (case load_watchlist e (WATCHLIST_PATH e) w of
        Inl exc \<Rightarrow> (Some exc, w)
      | Inr existing \<Rightarrow>
          let to_remove = set (map upper tickers);
              updated = filter (\<lambda>ticker. ticker \<notin> to_remove) existing;
              w' = save_watchlist updated (WATCHLIST_PATH e) w;
              removed_count = length existing - length updated
          in (None,
              print (Line (''Removed '' @ str_nat removed_count @ '' ticker(s) from watchlist.'')) w'))"

definition empty_message :: line where
  "empty_message = Line ''Watchlist is empty. Add tickers with the 'add' command.''"

definition list_watchlist :: "env \<Rightarrow> world \<Rightarrow> exn option \<times> world" where
  "list_watchlist e w =
     (case load_watchlist e (WATCHLIST_PATH e) w of
        Inl exc \<Rightarrow> (Some exc, w)
      | Inr watchlist \<Rightarrow>
          if watchlist = [] then (None, print empty_message w)
          else (None,
                w\<lparr>stdout := stdout w @ Line ''Watchlist:'' #
                      map (\<lambda>ticker. Line (''- '' @ ticker)) watchlist\<rparr>))"

text \<open>The tail that \<open>refresh\<close> and \<open>fetch\<close> share: print, summarise, export when asked.\<close>

definition show_quotes :: "env \<Rightarrow> quotes \<Rightarrow> string option \<Rightarrow> world \<Rightarrow> world" where
  "show_quotes e qs csv w =
     (let w1 = print_summary qs (print_quotes e qs w)
      in case csv of
           None \<Rightarrow> w1
         | Some path \<Rightarrow> if path = [] then w1 else export_csv e qs path w1)"

definition refresh_watchlist :: "env \<Rightarrow> string option \<Rightarrow> world \<Rightarrow> exn option \<times> world" where
  "refresh_watchlist e csv w =
     (case load_watchlist e (WATCHLIST_PATH e) w of
        Inl exc \<Rightarrow> (Some exc, w)
      | Inr watchlist \<Rightarrow>
          if watchlist = [] then (None, print empty_message w)
          else (case fetch_quotes e watchlist w of
                  (Inl exc, w') \<Rightarrow> (Some exc, w')
                | (Inr qs, w') \<Rightarrow> (None, show_quotes e qs csv w')))"

definition fetch_now :: "env \<Rightarrow> string list \<Rightarrow> string option \<Rightarrow> world \<Rightarrow> exn option \<times> world" where
  "fetch_now e args csv w =
     (let tickers = map upper args
      in case fetch_quotes e tickers w of
           (Inl exc, w') \<Rightarrow> (Some exc, w')
         | (Inr qs, w') \<Rightarrow> (None, show_quotes e qs csv w'))"

text \<open>The parsed command line: the subcommand with its arguments.\<close>

datatype command =
    Add "string list"
  | Remove "string list"
  | ListCmd
  | Refresh "string option"
  | Fetch "string list" "string option"

definition func :: "env \<Rightarrow> command \<Rightarrow> world \<Rightarrow> exn option \<times> world" where
  "func e c w =
     (case c of
        Add ts \<Rightarrow> add_tickers e ts w
      | Remove ts \<Rightarrow> remove_tickers e ts w
      | ListCmd \<Rightarrow> list_watchlist e w
      | Refresh csv \<Rightarrow> refresh_watchlist e csv w
      | Fetch ts csv \<Rightarrow> fetch_now e ts csv w)"

text \<open>
  \<open>main\<close> returns the exit status of the process with the final state. A RuntimeError is
  caught: its message goes to the error stream and the status is 1. Any other exception
  leaves \<open>main\<close>; the interpreter prints the traceback on the error stream and the status
  is 1. Otherwise the status is 0.
\<close>

definition main :: "env \<Rightarrow> command \<Rightarrow> world \<Rightarrow> nat \<times> world" where
  "main e c w =
     (case func e c w of
        (None, w') \<Rightarrow> (0, w')
      | (Some exc, w') \<Rightarrow>
          (case exc of
             RuntimeError m _ \<Rightarrow> (1, w'\<lparr>stderr := stderr w' @ [ErrLine m]\<rparr>)
           | _ \<Rightarrow> (1, w'\<lparr>stderr := stderr w' @ [Traceback exc]\<rparr>)))"

section \<open>Concrete inputs\<close>

definition world0 :: world where
  "world0 = \<lparr>files = Map.empty, stdout = [], stderr = [], sent = []\<rparr>"

text \<open>An environment whose network times out while the response is awaited.\<close>

definition env0 :: env where
  "env0 = \<lparr>home = ''/home/u'',
            urlopen = (\<lambda>r t. Inl (TimeoutError ''timed out'')),
            utcnow = \<lparr>year = 2024, month = 3, day = 9, hour = 7, minute = 5, second = 0,
                       microsecond = 123456\<rparr>,
            py_repr = (\<lambda>j. ''?''),
            float_of_str = (\<lambda>s. None)\<rparr>"

text \<open>An environment whose network refuses the connection.\<close>

definition env_refused :: env where
  "env_refused =
     env0\<lparr>urlopen :=
            (\<lambda>r t. Inl (URLError ''<urlopen error [Errno 111] Connection refused>''))\<rparr>"

text \<open>A state whose only file is \<open>c\<close> at path \<open>p\<close>.\<close>

definition world_file :: "string \<Rightarrow> content \<Rightarrow> world" where
  "world_file p c = \<lparr>files = [p \<mapsto> c], stdout = [], stderr = [], sent = []\<rparr>"

definition quotes_example :: quotes where
  "quotes_example =
     [(''MSFT'', \<lparr>symbol = ''MSFT'', price = 250, currency = JNull\<rparr>),
      (''AAPL'', \<lparr>symbol = ''AAPL'', price = 150, currency = JStr ''USD''\<rparr>)]"

text \<open>Two states with a watchlist file: one as the program stores it, one unsorted with a duplicate.\<close>

definition world_three :: world where
  "world_three =
     world_file (WATCHLIST_PATH env0) (Json (JArr [JStr ''AAPL'', JStr ''MSFT'', JStr ''TSLA'']))"

definition world_unsorted :: world where
  "world_unsorted =
     world_file (WATCHLIST_PATH env0) (Json (JArr [JStr ''B'', JStr ''A'', JStr ''A'']))"

text \<open>The mocked response of the specification, and an environment whose network returns it.\<close>

definition mock_payload :: json where
  "mock_payload =
     JObj [(''quoteResponse'',
            JObj [(''result'',
                   JArr [JObj [(''symbol'', JStr ''AAPL''),
                               (''regularMarketPrice'', JFloat 150),
                               (''currency'', JStr ''USD'')],
                         JObj [(''symbol'', JStr ''BAD'')]])])]"

definition env_mock :: env where
  "env_mock = env0\<lparr>urlopen := (\<lambda>r t. Inr (Json mock_payload))\<rparr>"

text \<open>A response with an entry whose symbol is a number, and its environment.\<close>

definition bad_payload :: json where
  "bad_payload =
     JObj [(''quoteResponse'',
            JObj [(''result'',
                   JArr [JObj [(''symbol'', JInt 5), (''regularMarketPrice'', JInt 1)]])])]"

definition env_bad :: env where
  "env_bad = env0\<lparr>urlopen := (\<lambda>r t. Inr (Json bad_payload))\<rparr>"

text \<open>
  A response that repeats a symbol, in lower case the second time, with an entry without
  price in between, and its environment.
\<close>

definition repeat_payload :: json where
  "repeat_payload =
     JObj [(''quoteResponse'',
            JObj [(''result'',
                   JArr [JObj [(''symbol'', JStr ''AAPL''), (''regularMarketPrice'', JFloat 150),
                               (''currency'', JStr ''USD'')],
                         JObj [(''symbol'', JStr ''BAD'')],
                         JObj [(''symbol'', JStr ''aapl''), (''regularMarketPrice'', JInt 151)]])])]"

definition env_repeat :: env where
  "env_repeat = env0\<lparr>urlopen := (\<lambda>r t. Inr (Json repeat_payload))\<rparr>"

section \<open>Runs of the program\<close>

text \<open>
  Successive runs of the program on the same machine: each run starts from the state the
  run before it left.
\<close>

definition run_commands :: "env \<Rightarrow> command list \<Rightarrow> world \<Rightarrow> world" where
  "run_commands e cs w = fold (\<lambda>c w'. snd (main e c w')) cs w"

section \<open>Notions of the specification\<close>

text \<open>The content is a JSON array.\<close>

definition is_json_array :: "content \<Rightarrow> bool" where
  "is_json_array c = (case c of Json (JArr items) \<Rightarrow> True | _ \<Rightarrow> False)"

text \<open>The content is a JSON array of strings.\<close>

definition is_array_of_strings :: "content \<Rightarrow> bool" where
  "is_array_of_strings c =
     (case c of
        Json (JArr items) \<Rightarrow>
          list_all (\<lambda>item. case item of JStr s \<Rightarrow> True | _ \<Rightarrow> False) items
      | _ \<Rightarrow> False)"

text \<open>The FormatError of the specification is Python's ValueError, with its subclasses.\<close>

definition is_ValueError :: "exn \<Rightarrow> bool" where
  "is_ValueError exc =
     (case exc of ValueError m \<Rightarrow> True | JSONDecodeError \<Rightarrow> True | _ \<Rightarrow> False)"

text \<open>The value of a field of a result entry, None when the field is missing.\<close>

definition field :: "(string \<times> json) list \<Rightarrow> string \<Rightarrow> json" where
  "field d k = (case map_of d k of None \<Rightarrow> JNull | Some v \<Rightarrow> v)"

text \<open>
  A result entry has the shape the quote service promises when it is an object whose
  \<open>symbol\<close>, if there, is a string or null and whose \<open>regularMarketPrice\<close>, if there, is
  null or a number, an int being within the range of a double. The currency may be
  anything.
\<close>

definition symbol_shaped :: "json \<Rightarrow> bool" where
  "symbol_shaped j = (case j of JNull \<Rightarrow> True | JStr s \<Rightarrow> True | _ \<Rightarrow> False)"

definition price_shaped :: "json \<Rightarrow> bool" where
  "price_shaped j =
     (case j of
        JNull \<Rightarrow> True
      | JInt i \<Rightarrow> (case float_of_int i of Inl exc \<Rightarrow> False | Inr x \<Rightarrow> True)
      | JFloat x \<Rightarrow> True
      | _ \<Rightarrow> False)"

definition entry_shaped :: "json \<Rightarrow> bool" where
  "entry_shaped entry =
     (case entry of
        JObj d \<Rightarrow>
          symbol_shaped (field d ''symbol'') \<and> price_shaped (field d ''regularMarketPrice'')
      | _ \<Rightarrow> False)"

text \<open>
  Symbol and price are present: the symbol is a string that is not empty and the price is
  a number (not null).
\<close>

definition symbol_present :: "json \<Rightarrow> bool" where
  "symbol_present j = (case j of JStr s \<Rightarrow> s \<noteq> [] | _ \<Rightarrow> False)"

definition price_present :: "json \<Rightarrow> bool" where
  "price_present j = (case j of JInt i \<Rightarrow> True | JFloat x \<Rightarrow> True | _ \<Rightarrow> False)"

definition both_present :: "json \<Rightarrow> bool" where
  "both_present entry =
     (case entry of
        JObj d \<Rightarrow> symbol_present (field d ''symbol'') \<and> price_present (field d ''regularMarketPrice'')
      | _ \<Rightarrow> False)"

text \<open>The quote of an entry of that shape whose symbol and price are present.\<close>

definition entry_quote :: "json \<Rightarrow> Quote" where
  "entry_quote entry =
     (case entry of
        JObj d \<Rightarrow>
          \<lparr>symbol = (case field d ''symbol'' of JStr s \<Rightarrow> upper s | _ \<Rightarrow> []),
           price = (case field d ''regularMarketPrice'' of
                      JInt i \<Rightarrow> (case float_of_int i of Inl exc \<Rightarrow> 0 | Inr x \<Rightarrow> x)
                    | JFloat x \<Rightarrow> x
                    | _ \<Rightarrow> 0),
           currency = field d ''currency''\<rparr>
      | _ \<Rightarrow> \<lparr>symbol = [], price = 0, currency = JNull\<rparr>)"

text \<open>Recording the quote of an entry under its uppercased symbol.\<close>

definition record_quote :: "json \<Rightarrow> quotes \<Rightarrow> quotes" where
  "record_quote entry qs = dict_set qs (symbol (entry_quote entry)) (entry_quote entry)"

text \<open>The entries with symbol and price present whose uppercased symbol is \<open>k\<close>, in order.\<close>

definition entries_for :: "string \<Rightarrow> json list \<Rightarrow> json list" where
  "entries_for k entries =
     filter (\<lambda>entry. both_present entry \<and> symbol (entry_quote entry) = k) entries"

section \<open>Evaluations\<close>

lemma str_int_1: "str_int 1 = ''1''"
  by code_simp

lemma upper_1: "upper ''1'' = ''1''"
  by code_simp

lemma upper_aapl: "upper ''aapl'' = ''AAPL''"
  by code_simp

lemma upper_None: "upper ''None'' = ''NONE''"
  by code_simp

lemma upper_AAPL: "upper ''AAPL'' = ''AAPL''"
  by code_simp

lemma upper_MSFT: "upper ''MSFT'' = ''MSFT''"
  by code_simp

lemma quote_plus_symbols: "quote_plus ''symbols'' = ''symbols''"
  by code_simp

lemma quote_plus_aapl: "quote_plus ''aapl'' = ''aapl''"
  by code_simp

lemma quote_plus_AAPL: "quote_plus ''AAPL'' = ''AAPL''"
  by code_simp

lemma quote_plus_two: "quote_plus ''AAPL,MSFT'' = ''AAPL%2CMSFT''"
  by code_simp

lemma pad4_2024: "pad4 2024 = ''2024''"
  by code_simp

lemma pad2_small:
  "pad2 3 = ''03''" "pad2 9 = ''09''" "pad2 7 = ''07''" "pad2 5 = ''05''" "pad2 0 = ''00''"
  by code_simp+

lemma timestamp_env0: "isoformat_seconds (utcnow env0) @ ''Z'' = ''2024-03-09T07:05:00Z''"
  by (simp add: env0_def isoformat_seconds_def pad4_2024 pad2_small)

lemma upper_TSLA: "upper ''TSLA'' = ''TSLA''"
  by code_simp
lemma upper_msft: "upper ''msft'' = ''MSFT''"
  by code_simp
lemma upper_nflx: "upper ''nflx'' = ''NFLX''"
  by code_simp
lemma upper_A: "upper ''A'' = ''A''"
  by code_simp
lemma upper_B: "upper ''B'' = ''B''"
  by code_simp
lemma upper_x: "upper ''x'' = ''X''"
  by code_simp
lemma sorted_set_two: "sorted_set [''AAPL'', ''TSLA''] = [''AAPL'', ''TSLA'']"
  by code_simp
lemma sorted_set_BAA: "sorted_set [''B'', ''A'', ''A''] = [''A'', ''B'']"
  by code_simp
lemma str_nat_0: "str_nat 0 = ''0''"
  by code_simp
lemma str_nat_1: "str_nat 1 = ''1''"
  by code_simp

lemma upper_a: "upper ''a'' = ''A''"
  by code_simp

lemma sorted_set_B: "sorted_set [''B''] = [''B'']"
  by code_simp

lemma str_nat_2: "str_nat 2 = ''2''"
  by code_simp

lemma str_nat_Suc_0: "str_nat (Suc 0) = ''1''"
  using str_nat_1 by simp

lemma str_nat_Suc_Suc_0: "str_nat (Suc (Suc 0)) = ''2''"
  using str_nat_2 by (simp add: numeral_2_eq_2)

section \<open>Uppercasing and the sorted set\<close>

lemma upper_char_idem: "upper_char (upper_char c) = upper_char c"
  unfolding upper_char_def by auto

lemma upper_idem: "upper (upper s) = upper s"
  by (simp add: upper_def upper_char_idem)

lemma map_upper_id: "\<forall>t\<in>set xs. upper t = t \<Longrightarrow> map upper xs = xs"
  by (induction xs) auto

lemma sorted_set_eq: "sorted_set xs = sorted_list_of_set (set xs)"
  by (simp add: sorted_set_def sorted_list_of_set_sort_remdups)

lemma sorted_set_append: "sorted_set (sorted_set xs @ ys) = sorted_set (xs @ ys)"
  by (simp add: sorted_set_eq)

lemma set_sorted_set: "set (sorted_set xs) = set xs"
  by (simp add: sorted_set_def)

lemma sorted_sorted_set: "sorted (sorted_set xs)"
  by (simp add: sorted_set_def)

lemma distinct_sorted_set: "distinct (sorted_set xs)"
  by (simp add: sorted_set_def)

section \<open>Persistence\<close>

lemma load_save: "load_watchlist e p (save_watchlist T p w) = Inr (map upper (sorted_set T))"
  by (simp add: load_watchlist_def save_watchlist_def json_load_def py_str_def comp_def)

text \<open>
  C1, as stated: saving any list \<open>T\<close> and loading it back gives the sorted set of the
  uppercased elements of \<open>T\<close>. It fails for \<open>T = ["a", "A"]\<close>: \<open>save_watchlist\<close> sorts and
  de-duplicates the strings as they are, \<open>load_watchlist\<close> uppercases afterwards, and the
  result is \<open>["A", "A"]\<close>, not \<open>["A"]\<close>.
\<close>

theorem save_then_load_counterexample:
  "load_watchlist env0 ''wl'' (save_watchlist [''a'', ''A''] ''wl'' world0)
     \<noteq> Inr (sorted_set (map upper [''a'', ''A'']))"
  by (simp add: load_save) code_simp

text \<open>
  C1, amended: saving \<open>T\<close> and loading from the same path gives the uppercased elements of
  the sorted set of \<open>T\<close>; when every element of \<open>T\<close> is already uppercase, as the tickers the
  commands save are, that is the sorted set of the uppercased elements of \<open>T\<close>.
\<close>

theorem save_then_load:
  "load_watchlist e p (save_watchlist T p w) = Inr (map upper (sorted_set T)) \<and>
   ((\<forall>t\<in>set T. upper t = t) \<longrightarrow>
      load_watchlist e p (save_watchlist T p w) = Inr (sorted_set (map upper T)))"
  by (simp add: load_save map_upper_id set_sorted_set)

theorem save_then_load_witness:
  "upper ''MSFT'' = ''MSFT'' \<and> upper ''AAPL'' = ''AAPL'' \<and>
   load_watchlist env0 ''wl'' (save_watchlist [''MSFT'', ''AAPL'', ''MSFT''] ''wl'' world0)
     = Inr [''AAPL'', ''MSFT'']"
proof -
  have u: "upper ''MSFT'' = ''MSFT''" "upper ''AAPL'' = ''AAPL''"
    by code_simp+
  have s: "sorted_set (map upper [''MSFT'', ''AAPL'', ''MSFT'']) = [''AAPL'', ''MSFT'']"
    by code_simp
  from save_then_load [of env0 "''wl''" "[''MSFT'', ''AAPL'', ''MSFT'']" world0] u s
  show ?thesis by simp
qed

lemma load_absent: "files w p = None \<Longrightarrow> load_watchlist e p w = Inr []"
  by (simp add: load_watchlist_def)

lemma load_array:
  "files w p = Some (Json (JArr items)) \<Longrightarrow>
   load_watchlist e p w = Inr (map (\<lambda>item. upper (py_str e item)) items)"
  by (simp add: load_watchlist_def json_load_def)

lemma load_not_array:
  "files w p = Some c \<Longrightarrow> \<not> is_json_array c \<Longrightarrow>
   \<exists>exc. load_watchlist e p w = Inl exc \<and> is_ValueError exc"
  by (cases c; simp add: load_watchlist_def json_load_def is_json_array_def is_ValueError_def
        split: json.splits)

text \<open>
  C3, as stated: a file that is present makes \<open>load_watchlist\<close> fail exactly when its
  content is not a JSON array of strings. The array \<open>[1]\<close> is not an array of strings, and
  \<open>load_watchlist\<close> does not fail on it: it returns \<open>["1"]\<close>.
\<close>

theorem load_watchlist_counterexample:
  "\<not> is_array_of_strings (Json (JArr [JInt 1])) \<and>
   load_watchlist env0 ''wl'' (world_file ''wl'' (Json (JArr [JInt 1]))) = Inr [''1'']"
  by (simp add: is_array_of_strings_def load_watchlist_def world_file_def json_load_def
        py_str_def str_int_1 upper_1)

text \<open>
  C3, amended: \<open>load_watchlist\<close> returns the empty list when the file is absent; when the
  file is present it fails, with a ValueError, if and only if the content is not a JSON
  array, and for a JSON array it returns \<open>str(item).upper()\<close> of every item, in order,
  whatever the items are.
\<close>

theorem load_watchlist_cases:
  "(files w p = None \<longrightarrow> load_watchlist e p w = Inr []) \<and>
   (\<forall>c. files w p = Some c \<longrightarrow>
      ((\<exists>exc. load_watchlist e p w = Inl exc \<and> is_ValueError exc) \<longleftrightarrow> \<not> is_json_array c) \<and>
      (\<forall>items. c = Json (JArr items) \<longrightarrow>
         load_watchlist e p w = Inr (map (\<lambda>item. upper (py_str e item)) items)))"
proof (intro conjI allI impI)
  assume "files w p = None"
  then show "load_watchlist e p w = Inr []" by (rule load_absent)
next
  fix c assume c: "files w p = Some c"
  show "(\<exists>exc. load_watchlist e p w = Inl exc \<and> is_ValueError exc) \<longleftrightarrow> \<not> is_json_array c"
  proof
    assume "\<exists>exc. load_watchlist e p w = Inl exc \<and> is_ValueError exc"
    then show "\<not> is_json_array c"
      using c by (auto simp: is_json_array_def load_array split: content.splits json.splits)
  next
    assume "\<not> is_json_array c"
    with c show "\<exists>exc. load_watchlist e p w = Inl exc \<and> is_ValueError exc"
      by (rule load_not_array)
  qed
next
  fix c items assume "files w p = Some c" "c = Json (JArr items)"
  then show "load_watchlist e p w = Inr (map (\<lambda>item. upper (py_str e item)) items)"
    by (simp add: load_array)
qed

theorem load_watchlist_cases_witness:
  "load_watchlist env0 ''wl'' world0 = Inr [] \<and>
   (\<exists>exc. load_watchlist env0 ''wl'' (world_file ''wl'' (Json (JObj []))) = Inl exc
           \<and> is_ValueError exc) \<and>
   load_watchlist env0 ''wl'' (world_file ''wl'' (Json (JArr [JStr ''aapl'', JNull])))
     = Inr [''AAPL'', ''NONE'']"
proof -
  have a: "files world0 ''wl'' = None"
    by (simp add: world0_def)
  have b: "files (world_file ''wl'' (Json (JObj []))) ''wl'' = Some (Json (JObj []))"
    "\<not> is_json_array (Json (JObj []))"
    by (simp_all add: world_file_def is_json_array_def)
  have d: "files (world_file ''wl'' (Json (JArr [JStr ''aapl'', JNull]))) ''wl''
             = Some (Json (JArr [JStr ''aapl'', JNull]))"
    by (simp add: world_file_def)
  have u: "map (\<lambda>item. upper (py_str env0 item)) [JStr ''aapl'', JNull] = [''AAPL'', ''NONE'']"
    by (simp add: py_str_def upper_aapl upper_None)
  from load_watchlist_cases [of world0 "''wl''" env0] a
       load_watchlist_cases [of "world_file ''wl'' (Json (JObj []))" "''wl''" env0] b
       load_watchlist_cases
         [of "world_file ''wl'' (Json (JArr [JStr ''aapl'', JNull]))" "''wl''" env0] d u
  show ?thesis by simp
qed

section \<open>Fetching quotes\<close>

text \<open>
  C8: \<open>fetch_quotes\<close> on the empty list returns the empty mapping and leaves the state,
  with the log of requests sent, as it was: no network call is made.
\<close>

theorem fetch_quotes_empty: "fetch_quotes e [] w = (Inr [], w)"
  by (simp add: fetch_quotes_def)

lemma url_quote_request:
  "url (quote_request tickers) = YAHOO_QUOTE_URL @ ''?symbols='' @ quote_plus (join '','' tickers)"
  by (simp add: quote_request_def urlencode_def quote_plus_symbols)

lemma headers_quote_request:
  "headers (quote_request tickers) = [(''User-Agent'', ''CLItool/1.0'')]"
  by (simp add: quote_request_def Let_def)

lemma method_quote_request: "get_method (quote_request tickers) = ''GET''"
  by (simp add: quote_request_def Let_def get_method_def)

lemma sent_fetch_quotes:
  "tickers \<noteq> [] \<Longrightarrow>
   snd (fetch_quotes e tickers w) = w\<lparr>sent := sent w @ [(quote_request tickers, 15)]\<rparr>"
  by (simp add: fetch_quotes_def Let_def split: sum.splits)

lemma load_upper:
  assumes "load_watchlist e p w = Inr existing"
  shows "\<forall>t\<in>set existing. upper t = t"
proof (cases "files w p")
  case None
  with assms show ?thesis by (simp add: load_watchlist_def)
next
  case (Some c)
  with assms obtain items where "existing = map (\<lambda>item. upper (py_str e item)) items"
    by (auto simp: load_watchlist_def json_load_def split: content.splits json.splits)
  then show ?thesis by (simp add: upper_idem)
qed

lemma sent_show_quotes: "sent (show_quotes e qs csv w) = sent w"
  by (simp add: show_quotes_def print_summary_def print_quotes_def export_csv_def print_def
        Let_def split: option.splits)

text \<open>
  Both callers hand uppercase tickers to \<open>fetch_quotes\<close>: \<open>fetch_now\<close> uppercases its
  arguments, \<open>refresh_watchlist\<close> passes what \<open>load_watchlist\<close> returned.
\<close>

lemma fetch_now_request:
  assumes "args \<noteq> []"
  shows "sent (snd (fetch_now e args csv w)) = sent w @ [(quote_request (map upper args), 15)]"
proof -
  obtain r w' where f: "fetch_quotes e (map upper args) w = (r, w')"
    by (cases "fetch_quotes e (map upper args) w")
  from assms have "snd (fetch_quotes e (map upper args) w)
      = w\<lparr>sent := sent w @ [(quote_request (map upper args), 15)]\<rparr>"
    by (intro sent_fetch_quotes) simp
  with f have w': "w' = w\<lparr>sent := sent w @ [(quote_request (map upper args), 15)]\<rparr>"
    by simp
  show ?thesis
    by (cases r) (simp_all add: fetch_now_def Let_def f w' sent_show_quotes)
qed

lemma refresh_watchlist_request:
  assumes "load_watchlist e (WATCHLIST_PATH e) w = Inr watchlist" and "watchlist \<noteq> []"
  shows "sent (snd (refresh_watchlist e csv w)) = sent w @ [(quote_request watchlist, 15)] \<and>
         (\<forall>t\<in>set watchlist. upper t = t)"
proof -
  obtain r w' where f: "fetch_quotes e watchlist w = (r, w')"
    by (cases "fetch_quotes e watchlist w")
  from assms(2) have "snd (fetch_quotes e watchlist w)
      = w\<lparr>sent := sent w @ [(quote_request watchlist, 15)]\<rparr>"
    by (rule sent_fetch_quotes)
  with f have w': "w' = w\<lparr>sent := sent w @ [(quote_request watchlist, 15)]\<rparr>"
    by simp
  have "sent (snd (refresh_watchlist e csv w)) = sent w @ [(quote_request watchlist, 15)]"
    using assms by (cases r) (simp_all add: refresh_watchlist_def f w' sent_show_quotes)
  moreover have "\<forall>t\<in>set watchlist. upper t = t"
    using assms(1) by (rule load_upper)
  ultimately show ?thesis by simp
qed

text \<open>
  C7: for every non-empty list of tickers, which are uppercase strings, \<open>fetch_quotes\<close>
  hands exactly one request to \<open>urlopen\<close>; it is a GET of the fixed endpoint whose query is
  \<open>symbols=\<close> followed by the URL-encoded comma-joined uppercase ticker list, and its only
  header is the fixed User-Agent.
\<close>

theorem fetch_quotes_request:
  assumes "tickers \<noteq> []" and "\<forall>t\<in>set tickers. upper t = t"
  shows "sent (snd (fetch_quotes e tickers w)) = sent w @ [(quote_request tickers, 15)] \<and>
         get_method (quote_request tickers) = ''GET'' \<and>
         url (quote_request tickers)
           = YAHOO_QUOTE_URL @ ''?symbols='' @ quote_plus (join '','' (map upper tickers)) \<and>
         headers (quote_request tickers) = [(''User-Agent'', ''CLItool/1.0'')]"
  using assms
  by (simp add: sent_fetch_quotes url_quote_request headers_quote_request
        method_quote_request map_upper_id)

theorem fetch_quotes_request_witness:
  "sent (snd (fetch_quotes env0 [''AAPL'', ''MSFT''] world0))
     = [(\<lparr>url = ''https://query1.finance.yahoo.com/v7/finance/quote?symbols=AAPL%2CMSFT'',
          headers = [(''User-Agent'', ''CLItool/1.0'')], data = None\<rparr>, 15)]"
proof -
  have r: "quote_request [''AAPL'', ''MSFT'']
      = \<lparr>url = ''https://query1.finance.yahoo.com/v7/finance/quote?symbols=AAPL%2CMSFT'',
          headers = [(''User-Agent'', ''CLItool/1.0'')], data = None\<rparr>"
    by (simp add: quote_request_def urlencode_def quote_plus_symbols quote_plus_two
          YAHOO_QUOTE_URL_def)
  have u: "\<forall>t\<in>set [''AAPL'', ''MSFT'']. upper t = t"
    by (simp add: upper_AAPL upper_MSFT)
  from fetch_quotes_request [of "[''AAPL'', ''MSFT'']" env0 world0] u r show ?thesis
    by (simp add: world0_def)
qed

text \<open>
  What \<open>fetch_quotes\<close> does with a URLError (connection refused, DNS failure, HTTPError for
  a non-2xx response, a timeout while connecting): it raises one RuntimeError whose message
  is \<open>Failed to fetch quotes:\<close> with the text of the cause and whose cause is that URLError;
  one request has been sent and no second one; the \<open>fetch\<close> and \<open>refresh\<close> commands end with
  status 1 and that message on the error stream, and no file has changed.
\<close>

lemma fetch_urlerror_wrapped:
  assumes "tickers \<noteq> []"
    and "urlopen e (quote_request tickers) 15 = Inl exc"
    and "is_URLError exc"
  shows "fetch_quotes e tickers w
           = (Inl (RuntimeError (''Failed to fetch quotes: '' @ str_exn exc) exc),
              w\<lparr>sent := sent w @ [(quote_request tickers, 15)]\<rparr>) \<and>
         (\<forall>args csv. map upper args = tickers \<longrightarrow>
            main e (Fetch args csv) w
              = (1, w\<lparr>sent := sent w @ [(quote_request tickers, 15)],
                      stderr := stderr w
                        @ [ErrLine (''Failed to fetch quotes: '' @ str_exn exc)]\<rparr>)) \<and>
         (\<forall>csv. load_watchlist e (WATCHLIST_PATH e) w = Inr tickers \<longrightarrow>
            main e (Refresh csv) w
              = (1, w\<lparr>sent := sent w @ [(quote_request tickers, 15)],
                      stderr := stderr w
                        @ [ErrLine (''Failed to fetch quotes: '' @ str_exn exc)]\<rparr>))"
proof -
  have f: "fetch_quotes e tickers w
           = (Inl (RuntimeError (''Failed to fetch quotes: '' @ str_exn exc) exc),
              w\<lparr>sent := sent w @ [(quote_request tickers, 15)]\<rparr>)"
    using assms by (simp add: fetch_quotes_def Let_def)
  have m1: "main e (Fetch args csv) w
              = (1, w\<lparr>sent := sent w @ [(quote_request tickers, 15)],
                      stderr := stderr w
                        @ [ErrLine (''Failed to fetch quotes: '' @ str_exn exc)]\<rparr>)"
    if "map upper args = tickers" for args csv
    using that f by (simp add: main_def func_def fetch_now_def Let_def)
  have m2: "main e (Refresh csv) w
              = (1, w\<lparr>sent := sent w @ [(quote_request tickers, 15)],
                      stderr := stderr w
                        @ [ErrLine (''Failed to fetch quotes: '' @ str_exn exc)]\<rparr>)"
    if "load_watchlist e (WATCHLIST_PATH e) w = Inr tickers" for csv
    using that f assms(1) by (simp add: main_def func_def refresh_watchlist_def)
  from f m1 m2 show ?thesis by blast
qed

lemma fetch_refused_wrapped:
  "fetch_quotes env_refused [''AAPL''] world0
     = (Inl (RuntimeError
               ''Failed to fetch quotes: <urlopen error [Errno 111] Connection refused>''
               (URLError ''<urlopen error [Errno 111] Connection refused>'')),
        world0\<lparr>sent := [(quote_request [''AAPL''], 15)]\<rparr>) \<and>
   main env_refused (Fetch [''aapl''] None) world0
     = (1, world0\<lparr>sent := [(quote_request [''AAPL''], 15)],
                  stderr := [ErrLine
                    ''Failed to fetch quotes: <urlopen error [Errno 111] Connection refused>'']\<rparr>)"
proof -
  have a: "[''AAPL''] \<noteq> []"
    by simp
  have b: "urlopen env_refused (quote_request [''AAPL'']) 15
             = Inl (URLError ''<urlopen error [Errno 111] Connection refused>'')"
    by (simp add: env_refused_def)
  have c: "is_URLError (URLError ''<urlopen error [Errno 111] Connection refused>'')"
    by (simp add: is_URLError_def)
  have u: "map upper [''aapl''] = [''AAPL'']"
    by (simp add: upper_aapl)
  from fetch_urlerror_wrapped [OF a b c, of world0] u show ?thesis
    by (simp add: str_exn_def world0_def)
qed

text \<open>
  C2 does not hold of the code: a timeout is a network-level failure, and the claim has it
  reported as one RuntimeError wrapping the cause, with the message on the error stream.
  When the socket times out while the response is awaited, after the 15 seconds passed as
  \<open>timeout\<close>, \<open>urlopen\<close> raises TimeoutError, which is no URLError. The \<open>except\<close> clause of
  \<open>fetch_quotes\<close> names URLError alone, so the TimeoutError leaves \<open>fetch_quotes\<close> as it is,
  \<open>main\<close> does not catch it either, and the run ends in a traceback in place of the message.
  One request has been sent and no file has changed.
\<close>

theorem fetch_timeout_escapes:
  "fetch_quotes env0 [''AAPL''] world0
     = (Inl (TimeoutError ''timed out''), world0\<lparr>sent := [(quote_request [''AAPL''], 15)]\<rparr>) \<and>
   main env0 (Fetch [''AAPL''] None) world0
     = (1, world0\<lparr>sent := [(quote_request [''AAPL''], 15)],
                  stderr := [Traceback (TimeoutError ''timed out'')]\<rparr>)"
  by (simp add: fetch_quotes_def Let_def env0_def world0_def is_URLError_def main_def func_def
        fetch_now_def upper_AAPL)

section \<open>CSV export\<close>

lemma export_csv_empty:
  "export_csv e [] path w = w\<lparr>stdout := stdout w @ [Line ''No quotes to export.'']\<rparr>"
  by (simp add: export_csv_def print_def)

lemma export_csv_nonempty:
  "qs \<noteq> [] \<Longrightarrow>
   export_csv e qs path w
     = w\<lparr>files := (files w)(path \<mapsto>
            Csv (csv_header
                 # map (\<lambda>kv. csv_row (isoformat_seconds (utcnow e) @ ''Z'') (snd kv)) qs)),
          stdout := stdout w @ [Line (''CSV exported to '' @ path)]\<rparr>"
  by (simp add: export_csv_def print_def Let_def)

text \<open>
  C9: on the empty mapping \<open>export_csv\<close> prints its message and leaves every file as it
  was. On a non-empty mapping the file at the path holds the header row
  \<open>symbol,price,currency,timestamp\<close> and then one row for each quote, in the order of the
  mapping; the last cell of every row is the same timestamp, the clock read once as
  \<open>YYYY-MM-DDTHH:MM:SS\<close> followed by \<open>Z\<close>.
\<close>

theorem export_csv_rows:
  "(qs = [] \<longrightarrow>
      files (export_csv e qs path w) = files w \<and>
      stdout (export_csv e qs path w) = stdout w @ [Line ''No quotes to export.'']) \<and>
   (qs \<noteq> [] \<longrightarrow>
      (\<exists>timestamp.
         timestamp = isoformat_seconds (utcnow e) @ ''Z'' \<and>
         files (export_csv e qs path w) path
           = Some (Csv ([JStr ''symbol'', JStr ''price'', JStr ''currency'', JStr ''timestamp'']
                        # map (\<lambda>kv. [JStr (symbol (snd kv)), JFloat (price (snd kv)),
                                      (if truthy (currency (snd kv)) then currency (snd kv)
                                       else JStr []),
                                      JStr timestamp]) qs))))"
  by (simp add: export_csv_empty export_csv_nonempty csv_header_def csv_row_def)

theorem export_csv_rows_witness:
  "files (export_csv env0 [] ''out.csv'' world0) = files world0 \<and>
   stdout (export_csv env0 [] ''out.csv'' world0) = [Line ''No quotes to export.''] \<and>
   files (export_csv env0 quotes_example ''out.csv'' world0) ''out.csv''
     = Some (Csv [[JStr ''symbol'', JStr ''price'', JStr ''currency'', JStr ''timestamp''],
                  [JStr ''MSFT'', JFloat 250, JStr [], JStr ''2024-03-09T07:05:00Z''],
                  [JStr ''AAPL'', JFloat 150, JStr ''USD'', JStr ''2024-03-09T07:05:00Z'']])"
proof -
  have n: "quotes_example \<noteq> []"
    by (simp add: quotes_example_def)
  have m: "map (\<lambda>kv. [JStr (symbol (snd kv)), JFloat (price (snd kv)),
                      (if truthy (currency (snd kv)) then currency (snd kv) else JStr []),
                      JStr ''2024-03-09T07:05:00Z'']) quotes_example
      = [[JStr ''MSFT'', JFloat 250, JStr [], JStr ''2024-03-09T07:05:00Z''],
         [JStr ''AAPL'', JFloat 150, JStr ''USD'', JStr ''2024-03-09T07:05:00Z'']]"
    by (simp add: quotes_example_def truthy_def)
  have s0: "stdout world0 = []"
    by (simp add: world0_def)
  from export_csv_rows [of "[]" env0 "''out.csv''" world0]
       export_csv_rows [of quotes_example env0 "''out.csv''" world0] n m
  show ?thesis by (simp add: timestamp_env0 s0)
qed

section \<open>Adding tickers\<close>

lemma files_save:
  "files (save_watchlist T p w) p = Some (Json (JArr (map JStr (sorted_set T))))"
  by (simp add: save_watchlist_def)

lemma files_print: "files (print l w) = files w"
  by (simp add: print_def)

lemma load_stored:
  assumes "files w p = Some (Json (JArr (map JStr X)))" and "\<forall>x\<in>set X. upper x = x"
  shows "load_watchlist e p w = Inr X"
  using assms by (simp add: load_array py_str_def comp_def map_upper_id)

lemma main_add:
  "load_watchlist e (WATCHLIST_PATH e) w = Inr existing \<Longrightarrow>
   main e (Add ts) w
     = (0, print (Line (''Added '' @ str_nat (length (map upper ts))
                        @ '' ticker(s) to watchlist.''))
             (save_watchlist (existing @ map upper ts) (WATCHLIST_PATH e) w))"
  by (simp add: main_def func_def add_tickers_def Let_def)

lemma adds_inv:
  "files w (WATCHLIST_PATH e) = Some (Json (JArr (map JStr (sorted_set X)))) \<Longrightarrow>
   \<forall>x\<in>set X. upper x = x \<Longrightarrow>
   files (run_commands e (map Add argss) w) (WATCHLIST_PATH e)
     = Some (Json (JArr (map JStr (sorted_set (X @ map upper (concat argss))))))"
proof (induction argss arbitrary: w X)
  case Nil
  then show ?case by (simp add: run_commands_def)
next
  case (Cons a argss)
  have l: "load_watchlist e (WATCHLIST_PATH e) w = Inr (sorted_set X)"
    using Cons.prems by (intro load_stored) (simp_all add: set_sorted_set)
  let ?w1 = "snd (main e (Add a) w)"
  have f: "files ?w1 (WATCHLIST_PATH e)
             = Some (Json (JArr (map JStr (sorted_set (X @ map upper a)))))"
    by (simp add: main_add [OF l] files_print files_save sorted_set_append)
  have u: "\<forall>x\<in>set (X @ map upper a). upper x = x"
    using Cons.prems(2) by (auto simp: upper_idem)
  have "files (run_commands e (map Add argss) ?w1) (WATCHLIST_PATH e)
          = Some (Json (JArr (map JStr
              (sorted_set ((X @ map upper a) @ map upper (concat argss))))))"
    by (rule Cons.IH [OF f u])
  then show ?case by (simp add: run_commands_def)
qed

text \<open>
  C4: start from an empty watchlist (the file absent, or holding the empty array) and run
  \<open>add\<close> any number of times, at least once. The file then holds the sorted,
  de-duplicated list of all the tickers given, uppercased.
\<close>

theorem adds_persist_union:
  assumes "load_watchlist e (WATCHLIST_PATH e) w = Inr []" and "argss \<noteq> []"
  shows "files (run_commands e (map Add argss) w) (WATCHLIST_PATH e)
           = Some (Json (JArr (map JStr (sorted_set (map upper (concat argss))))))"
proof -
  from assms(2) obtain a rest where ar: "argss = a # rest"
    by (cases argss) auto
  let ?w1 = "snd (main e (Add a) w)"
  have f: "files ?w1 (WATCHLIST_PATH e)
             = Some (Json (JArr (map JStr (sorted_set (map upper a)))))"
    by (simp add: main_add [OF assms(1)] files_print files_save)
  have u: "\<forall>x\<in>set (map upper a). upper x = x"
    by (auto simp: upper_idem)
  have "files (run_commands e (map Add rest) ?w1) (WATCHLIST_PATH e)
          = Some (Json (JArr (map JStr
              (sorted_set (map upper a @ map upper (concat rest))))))"
    by (rule adds_inv [OF f u])
  then show ?thesis by (simp add: ar run_commands_def)
qed

theorem adds_persist_union_witness:
  "files (run_commands env0 (map Add [[''msft'', ''AAPL''], [''aapl'', ''tsla'']]) world0)
     (WATCHLIST_PATH env0)
   = Some (Json (JArr [JStr ''AAPL'', JStr ''MSFT'', JStr ''TSLA'']))"
proof -
  have a: "load_watchlist env0 (WATCHLIST_PATH env0) world0 = Inr []"
    by (simp add: load_absent world0_def)
  have b: "[[''msft'', ''AAPL''], [''aapl'', ''tsla'']] \<noteq> []"
    by simp
  have ev: "sorted_set (map upper (concat [[''msft'', ''AAPL''], [''aapl'', ''tsla'']]))
              = [''AAPL'', ''MSFT'', ''TSLA'']"
    by code_simp
  from adds_persist_union [OF a b] show ?thesis
    by (simp only: ev list.map)
qed

section \<open>Removing tickers\<close>

lemma load_three:
  "load_watchlist env0 (WATCHLIST_PATH env0) world_three = Inr [''AAPL'', ''MSFT'', ''TSLA'']"
  by (simp add: load_array world_three_def world_file_def py_str_def upper_AAPL upper_MSFT
        upper_TSLA)

lemma load_unsorted:
  "load_watchlist env0 (WATCHLIST_PATH env0) world_unsorted = Inr [''B'', ''A'', ''A'']"
  by (simp add: load_array world_unsorted_def world_file_def py_str_def upper_A upper_B)

lemma remove_result:
  assumes "load_watchlist e (WATCHLIST_PATH e) w = Inr existing"
  shows "remove_tickers e ts w
           = (None,
              print (Line (''Removed ''
                       @ str_nat (length existing
                                  - length (filter (\<lambda>t. t \<notin> set (map upper ts)) existing))
                       @ '' ticker(s) from watchlist.''))
                (save_watchlist (filter (\<lambda>t. t \<notin> set (map upper ts)) existing)
                   (WATCHLIST_PATH e) w))"
  using assms by (simp add: remove_tickers_def Let_def)

lemma removed_count:
  assumes "distinct existing"
  shows "length existing - length (filter P existing)
           = card (set existing - set (filter P existing))"
proof -
  have "length existing = length (filter P existing) + length (filter (\<lambda>x. \<not> P x) existing)"
    by (simp add: sum_length_filter_compl)
  moreover have "set existing - set (filter P existing) = set (filter (\<lambda>x. \<not> P x) existing)"
    by auto
  moreover have "card (set (filter (\<lambda>x. \<not> P x) existing)) = length (filter (\<lambda>x. \<not> P x) existing)"
    using assms by (intro distinct_card distinct_filter)
  ultimately show ?thesis by simp
qed

lemma list_result:
  assumes "load_watchlist e (WATCHLIST_PATH e) w = Inr watchlist"
  shows "list_watchlist e w
           = (None, w\<lparr>stdout := stdout w @
                (if watchlist = [] then [empty_message]
                 else Line ''Watchlist:'' # map (\<lambda>ticker. Line (''- '' @ ticker)) watchlist)\<rparr>)"
  using assms by (simp add: list_watchlist_def print_def)

lemma sorted_set_Nil: "sorted_set xs = [] \<longleftrightarrow> xs = []"
  using set_sorted_set [of xs] by (metis set_empty)


lemma kept_filter:
  assumes "\<forall>t\<in>set existing. upper t = t"
  shows "filter (\<lambda>t. t \<notin> set (map upper ts)) existing
           = filter (\<lambda>t. \<not> (\<exists>r\<in>set ts. upper r = upper t)) existing"
proof (rule filter_cong [OF refl])
  fix t assume "t \<in> set existing"
  with assms have "upper t = t" by blast
  then show "(t \<notin> set (map upper ts)) = (\<not> (\<exists>r\<in>set ts. upper r = upper t))"
    by auto
qed

lemma remove_state:
  assumes "load_watchlist e (WATCHLIST_PATH e) w = Inr existing"
    and "kept = filter (\<lambda>t. \<not> (\<exists>r\<in>set ts. upper r = upper t)) existing"
  shows "remove_tickers e ts w
           = (None,
              print (Line (''Removed '' @ str_nat (length existing - length kept)
                       @ '' ticker(s) from watchlist.''))
                (save_watchlist kept (WATCHLIST_PATH e) w))"
proof -
  have up: "\<forall>t\<in>set existing. upper t = t"
    using assms(1) by (rule load_upper)
  have k: "filter (\<lambda>t. t \<notin> set (map upper ts)) existing = kept"
    unfolding assms(2) using up by (rule kept_filter)
  show ?thesis
    unfolding remove_result [OF assms(1)] k ..
qed

lemma stdout_print: "stdout (print l w) = stdout w @ [l]"
  by (simp add: print_def)

lemma stdout_save: "stdout (save_watchlist T p w) = stdout w"
  by (simp add: save_watchlist_def)

lemma load_print: "load_watchlist e p (print l w) = load_watchlist e p w"
  by (simp add: load_watchlist_def print_def)

lemma remove_file:
  assumes "load_watchlist e (WATCHLIST_PATH e) w = Inr existing"
  shows "files (snd (remove_tickers e ts w)) (WATCHLIST_PATH e)
           = Some (Json (JArr (map JStr
               (sorted_set (filter (\<lambda>t. t \<notin> set (map upper ts)) existing)))))"
  by (simp add: remove_result [OF assms] files_print files_save)

lemma stdout_unsorted: "stdout world_unsorted = []"
  by (simp add: world_unsorted_def world_file_def)

lemma load_after_add:
  assumes "load_watchlist e (WATCHLIST_PATH e) w = Inr existing"
  shows "load_watchlist e (WATCHLIST_PATH e) (snd (main e (Add ts) w))
           = Inr (sorted_set (existing @ map upper ts)) \<and>
         distinct (sorted_set (existing @ map upper ts))"
proof -
  have up: "\<forall>t\<in>set existing. upper t = t"
    using assms by (rule load_upper)
  have f: "files (snd (main e (Add ts) w)) (WATCHLIST_PATH e)
             = Some (Json (JArr (map JStr (sorted_set (existing @ map upper ts)))))"
    by (simp add: main_add [OF assms] files_print files_save)
  have u: "\<forall>x\<in>set (sorted_set (existing @ map upper ts)). upper x = x"
    using up by (auto simp: set_sorted_set upper_idem)
  from f u have "load_watchlist e (WATCHLIST_PATH e) (snd (main e (Add ts) w))
                   = Inr (sorted_set (existing @ map upper ts))"
    by (rule load_stored)
  then show ?thesis
    by (simp add: distinct_sorted_set)
qed

text \<open>
  C5, as stated: for every persisted watchlist the count that \<open>remove\<close> reports is the size
  of the set difference. The file \<open>["B", "A", "A"]\<close> loads to a list with a duplicate;
  removing \<open>a\<close> leaves \<open>["B"]\<close>, the set difference has one element, and the count printed
  is 2, the number of list entries dropped.
\<close>

theorem remove_then_list_counterexample:
  "load_watchlist env0 (WATCHLIST_PATH env0) world_unsorted = Inr [''B'', ''A'', ''A''] \<and>
   files (snd (remove_tickers env0 [''a''] world_unsorted)) (WATCHLIST_PATH env0)
     = Some (Json (JArr [JStr ''B''])) \<and>
   card (set [''B'', ''A'', ''A''] - set [''B'']) = 1 \<and>
   stdout (snd (remove_tickers env0 [''a''] world_unsorted))
     = [Line ''Removed 2 ticker(s) from watchlist.'']"
proof (intro conjI)
  show "load_watchlist env0 (WATCHLIST_PATH env0) world_unsorted = Inr [''B'', ''A'', ''A'']"
    by (rule load_unsorted)
  show "files (snd (remove_tickers env0 [''a''] world_unsorted)) (WATCHLIST_PATH env0)
     = Some (Json (JArr [JStr ''B'']))"
    by (simp add: remove_file [OF load_unsorted] upper_a sorted_set_B)
  show "card (set [''B'', ''A'', ''A''] - set [''B'']) = 1"
    by simp
  show "stdout (snd (remove_tickers env0 [''a''] world_unsorted))
     = [Line ''Removed 2 ticker(s) from watchlist.'']"
    unfolding remove_result [OF load_unsorted]
    by (simp add: stdout_print stdout_save upper_a str_nat_Suc_Suc_0 stdout_unsorted)
qed

text \<open>
  C5, amended: whenever the watchlist file loads, \<open>remove\<close> keeps exactly the tickers that
  match none of the given ones when case is ignored, saves them sorted, and prints as the
  count the number of list entries dropped, the length of the loaded list minus the length
  of the kept one; when the loaded list has no duplicates, as in every file the program has
  saved (\<open>load_after_add\<close>), that count is the size of the set difference between the tickers
  before and the tickers kept (0 when none matched). \<open>list\<close> run next prints the kept tickers
  only, none of them a removed one.
\<close>

theorem remove_then_list:
  assumes "load_watchlist e (WATCHLIST_PATH e) w = Inr existing"
  shows "let kept = filter (\<lambda>t. \<not> (\<exists>r\<in>set ts. upper r = upper t)) existing;
             w' = snd (remove_tickers e ts w)
         in remove_tickers e ts w = (None, w') \<and>
            files w' (WATCHLIST_PATH e) = Some (Json (JArr (map JStr (sorted_set kept)))) \<and>
            stdout w' = stdout w @
              [Line (''Removed '' @ str_nat (length existing - length kept)
                     @ '' ticker(s) from watchlist.'')] \<and>
            (distinct existing \<longrightarrow>
               length existing - length kept = card (set existing - set kept)) \<and>
            list_watchlist e w'
              = (None, w'\<lparr>stdout := stdout w' @
                   (if kept = [] then [empty_message]
                    else Line ''Watchlist:''
                         # map (\<lambda>ticker. Line (''- '' @ ticker)) (sorted_set kept))\<rparr>) \<and>
            (\<forall>r\<in>set ts. upper r \<notin> set (sorted_set kept))"
proof -
  define kept where "kept = filter (\<lambda>t. \<not> (\<exists>r\<in>set ts. upper r = upper t)) existing"
  define w' where "w' = snd (remove_tickers e ts w)"
  have r: "remove_tickers e ts w
           = (None,
              print (Line (''Removed '' @ str_nat (length existing - length kept)
                       @ '' ticker(s) from watchlist.''))
                (save_watchlist kept (WATCHLIST_PATH e) w))"
    using assms kept_def by (rule remove_state)
  have w': "w' = print (Line (''Removed '' @ str_nat (length existing - length kept)
                       @ '' ticker(s) from watchlist.''))
                (save_watchlist kept (WATCHLIST_PATH e) w)"
    by (simp add: w'_def r)
  have c1: "remove_tickers e ts w = (None, w')"
    by (simp add: r w')
  have c2: "files w' (WATCHLIST_PATH e) = Some (Json (JArr (map JStr (sorted_set kept))))"
    by (simp add: w' files_print files_save)
  have c3: "stdout w' = stdout w @
              [Line (''Removed '' @ str_nat (length existing - length kept)
                     @ '' ticker(s) from watchlist.'')]"
    by (simp add: w' stdout_print stdout_save)
  have c3': "distinct existing \<longrightarrow>
               length existing - length kept = card (set existing - set kept)"
    unfolding kept_def by (intro impI removed_count)
  have up: "\<forall>t\<in>set existing. upper t = t"
    using assms(1) by (rule load_upper)
  have ku: "\<forall>x\<in>set (sorted_set kept). upper x = x"
    using up by (simp add: set_sorted_set kept_def)
  have l: "load_watchlist e (WATCHLIST_PATH e) w' = Inr (sorted_set kept)"
    using c2 ku by (rule load_stored)
  have c4: "list_watchlist e w'
              = (None, w'\<lparr>stdout := stdout w' @
                   (if kept = [] then [empty_message]
                    else Line ''Watchlist:''
                         # map (\<lambda>ticker. Line (''- '' @ ticker)) (sorted_set kept))\<rparr>)"
    unfolding list_result [OF l] sorted_set_Nil ..
  have c5: "\<forall>r\<in>set ts. upper r \<notin> set (sorted_set kept)"
    by (auto simp: set_sorted_set kept_def upper_idem)
  from c1 c2 c3 c3' c4 c5 show ?thesis
    unfolding Let_def kept_def [symmetric] w'_def [symmetric] by (intro conjI)
qed

theorem remove_then_list_witness:
  "files (snd (remove_tickers env0 [''msft'', ''nflx''] world_three)) (WATCHLIST_PATH env0)
     = Some (Json (JArr [JStr ''AAPL'', JStr ''TSLA''])) \<and>
   stdout (snd (remove_tickers env0 [''msft'', ''nflx''] world_three))
     = [Line ''Removed 1 ticker(s) from watchlist.''] \<and>
   card (set [''AAPL'', ''MSFT'', ''TSLA''] - set [''AAPL'', ''TSLA'']) = 1 \<and>
   stdout (snd (list_watchlist env0 (snd (remove_tickers env0 [''msft'', ''nflx''] world_three))))
     = [Line ''Removed 1 ticker(s) from watchlist.'', Line ''Watchlist:'',
        Line ''- AAPL'', Line ''- TSLA'']"
proof -
  have d: "distinct [''AAPL'', ''MSFT'', ''TSLA'']"
    by simp
  have k: "filter (\<lambda>t. \<not> (\<exists>r\<in>set [''msft'', ''nflx'']. upper r = upper t))
             [''AAPL'', ''MSFT'', ''TSLA''] = [''AAPL'', ''TSLA'']"
    by (simp add: upper_msft upper_nflx upper_AAPL upper_MSFT upper_TSLA)
  have s0: "stdout world_three = []"
    by (simp add: world_three_def world_file_def)
  from load_three
  have "let kept = filter (\<lambda>t. \<not> (\<exists>r\<in>set [''msft'', ''nflx'']. upper r = upper t))
                     [''AAPL'', ''MSFT'', ''TSLA''];
             w' = snd (remove_tickers env0 [''msft'', ''nflx''] world_three)
         in remove_tickers env0 [''msft'', ''nflx''] world_three = (None, w') \<and>
            files w' (WATCHLIST_PATH env0) = Some (Json (JArr (map JStr (sorted_set kept)))) \<and>
            stdout w' = stdout world_three @
              [Line (''Removed '' @ str_nat (length [''AAPL'', ''MSFT'', ''TSLA''] - length kept)
                     @ '' ticker(s) from watchlist.'')] \<and>
            (distinct [''AAPL'', ''MSFT'', ''TSLA''] \<longrightarrow>
               length [''AAPL'', ''MSFT'', ''TSLA''] - length kept
                 = card (set [''AAPL'', ''MSFT'', ''TSLA''] - set kept)) \<and>
            list_watchlist env0 w'
              = (None, w'\<lparr>stdout := stdout w' @
                   (if kept = [] then [empty_message]
                    else Line ''Watchlist:''
                         # map (\<lambda>ticker. Line (''- '' @ ticker)) (sorted_set kept))\<rparr>) \<and>
            (\<forall>r\<in>set [''msft'', ''nflx'']. upper r \<notin> set (sorted_set kept))"
    by (rule remove_then_list)
  then show ?thesis
    unfolding Let_def k sorted_set_two s0 using d by (simp add: str_nat_Suc_0)
qed

text \<open>
  C10: whenever the watchlist loads, \<open>remove\<close> writes the file anew, whether or not a
  ticker matched, and what it writes is sorted and free of duplicates. So a \<open>remove\<close> that
  removes nothing still changes a file that was unsorted or held a duplicate: the file
  \<open>["B", "A", "A"]\<close> becomes \<open>["A", "B"]\<close> while the count printed is 0.
\<close>

theorem remove_rewrites_file:
  "(load_watchlist e (WATCHLIST_PATH e) w = Inr existing \<longrightarrow>
      (\<exists>L. files (snd (remove_tickers e ts w)) (WATCHLIST_PATH e)
               = Some (Json (JArr (map JStr L))) \<and>
           sorted L \<and> distinct L \<and> set L = set existing - set (map upper ts))) \<and>
   stdout (snd (remove_tickers env0 [''x''] world_unsorted))
     = [Line ''Removed 0 ticker(s) from watchlist.''] \<and>
   files world_unsorted (WATCHLIST_PATH env0)
     = Some (Json (JArr [JStr ''B'', JStr ''A'', JStr ''A''])) \<and>
   files (snd (remove_tickers env0 [''x''] world_unsorted)) (WATCHLIST_PATH env0)
     = Some (Json (JArr [JStr ''A'', JStr ''B'']))"
proof (intro conjI impI)
  assume l: "load_watchlist e (WATCHLIST_PATH e) w = Inr existing"
  let ?L = "sorted_set (filter (\<lambda>t. t \<notin> set (map upper ts)) existing)"
  have "files (snd (remove_tickers e ts w)) (WATCHLIST_PATH e) = Some (Json (JArr (map JStr ?L)))"
    using l by (rule remove_file)
  moreover have "sorted ?L" by (rule sorted_sorted_set)
  moreover have "distinct ?L" by (rule distinct_sorted_set)
  moreover have "set ?L = set existing - set (map upper ts)"
    by (auto simp: set_sorted_set)
  ultimately show "\<exists>L. files (snd (remove_tickers e ts w)) (WATCHLIST_PATH e)
               = Some (Json (JArr (map JStr L))) \<and>
           sorted L \<and> distinct L \<and> set L = set existing - set (map upper ts)"
    by blast
next
  show "stdout (snd (remove_tickers env0 [''x''] world_unsorted))
     = [Line ''Removed 0 ticker(s) from watchlist.'']"
    unfolding remove_result [OF load_unsorted]
    by (simp add: stdout_print stdout_save upper_x str_nat_0 stdout_unsorted)
next
  show "files world_unsorted (WATCHLIST_PATH env0)
     = Some (Json (JArr [JStr ''B'', JStr ''A'', JStr ''A'']))"
    by (simp add: world_unsorted_def world_file_def)
next
  show "files (snd (remove_tickers env0 [''x''] world_unsorted)) (WATCHLIST_PATH env0)
     = Some (Json (JArr [JStr ''A'', JStr ''B'']))"
    by (simp add: remove_file [OF load_unsorted] upper_x sorted_set_BAA)
qed

theorem remove_rewrites_file_witness:
  "\<exists>L. files (snd (remove_tickers env0 [''nflx''] world_three)) (WATCHLIST_PATH env0)
          = Some (Json (JArr (map JStr L))) \<and>
        sorted L \<and> distinct L \<and> set L = {''AAPL'', ''MSFT'', ''TSLA''}"
proof -
  have "set [''AAPL'', ''MSFT'', ''TSLA''] - set (map upper [''nflx'']) = {''AAPL'', ''MSFT'', ''TSLA''}"
    by (simp add: upper_nflx)
  with remove_rewrites_file [of env0 world_three "[''AAPL'', ''MSFT'', ''TSLA'']" "[''nflx'']"] load_three
  show ?thesis by simp
qed

section \<open>Parsing the response\<close>

lemma bit_length_151: "bit_length 151 = 8"
  by code_simp

lemma float_of_int_151: "float_of_int 151 = Inr 151"
  by (simp add: float_of_int_def round_to_double_def bit_length_151)

text \<open>
  The conversion of an int of \<open>2 ^ 1025\<close> or more raises OverflowError, so
  \<open>float(10 ** 309)\<close> does.
\<close>

lemma bit_length_upper: "a < 2 ^ bit_length a"
proof (induction a rule: bit_length.induct)
  case (1 n)
  show ?case
  proof (cases "n = 0")
    case True
    then show ?thesis by (simp add: bit_length.simps)
  next
    case False
    with 1 have "n div 2 < 2 ^ bit_length (n div 2)" by simp
    then have "n < 2 * 2 ^ bit_length (n div 2)" by linarith
    with False show ?thesis by (simp add: bit_length.simps [of n])
  qed
qed

lemma bit_length_lower: "0 < a \<Longrightarrow> 2 ^ (bit_length a - 1) \<le> a"
proof (induction a rule: bit_length.induct)
  case (1 n)
  then have n: "n \<noteq> 0" by simp
  show ?case
  proof (cases "n div 2 = 0")
    case True
    with n have "n = 1" by linarith
    then show ?thesis by (simp add: bit_length.simps)
  next
    case False
    with 1 n have ih: "2 ^ (bit_length (n div 2) - 1) \<le> n div 2" by simp
    from False have "bit_length (n div 2) \<noteq> 0" by (simp add: bit_length.simps [of "n div 2"])
    then have "(2::nat) ^ bit_length (n div 2) = 2 * 2 ^ (bit_length (n div 2) - 1)"
      by (cases "bit_length (n div 2)") simp_all
    with ih have "2 ^ bit_length (n div 2) \<le> n" by linarith
    with n show ?thesis by (simp add: bit_length.simps [of n])
  qed
qed


lemma round_to_double_large:
  assumes "2 ^ Suc n \<le> a" and "53 \<le> n"
  shows "2 ^ n \<le> round_to_double a"
proof -
  let ?bl = "bit_length a"
  have pos: "0 < a"
    using assms(1) by (cases "a = 0") simp_all
  have "(2::nat) ^ Suc n < 2 ^ ?bl"
    using assms(1) bit_length_upper [of a] by linarith
  then have bl: "Suc n < ?bl"
    by (simp only: power_strict_increasing_iff)
  define sh where "sh = ?bl - 53"
  have "sh + 1 \<le> ?bl - 1"
    using bl assms(2) by (simp add: sh_def)
  then have "(2::nat) ^ (sh + 1) \<le> 2 ^ (?bl - 1)"
    by (rule power_increasing) simp
  also have "\<dots> \<le> a"
    using pos by (rule bit_length_lower)
  finally have two: "2 * 2 ^ sh \<le> a"
    by simp
  have "a mod 2 ^ sh < 2 ^ sh"
    by simp
  moreover have "a = a div 2 ^ sh * 2 ^ sh + a mod 2 ^ sh"
    by (rule div_mult_mod_eq [symmetric])
  ultimately have q: "a < a div 2 ^ sh * 2 ^ sh + 2 ^ sh"
    by linarith
  have low: "2 ^ n \<le> a div 2 ^ sh * 2 ^ sh"
  proof -
    from two q have "a \<le> 2 * (a div 2 ^ sh * 2 ^ sh)"
      by linarith
    with assms(1) have "(2::nat) ^ Suc n \<le> 2 * (a div 2 ^ sh * 2 ^ sh)"
      by linarith
    then show ?thesis
      by simp
  qed
  have "\<not> ?bl \<le> 53"
    using bl assms(2) by simp
  then have "a div 2 ^ sh * 2 ^ sh \<le> round_to_double a"
    by (simp add: round_to_double_def Let_def sh_def)
  with low show ?thesis
    by linarith
qed

lemma float_of_int_overflow:
  assumes "2 ^ 1025 \<le> i"
  shows "float_of_int i = Inl OverflowError"
proof -
  have "(0::int) < 2 ^ 1025"
    by (rule zero_less_power) simp
  with assms have "0 \<le> i"
    by linarith
  with assms have "int (2 ^ Suc 1024) \<le> int (nat \<bar>i\<bar>)"
    by simp
  then have "(2::nat) ^ Suc 1024 \<le> nat \<bar>i\<bar>"
    by (simp only: of_nat_le_iff)
  then have "2 ^ 1024 \<le> round_to_double (nat \<bar>i\<bar>)"
    by (rule round_to_double_large) simp
  then show ?thesis
    by (simp add: float_of_int_def Let_def)
qed

lemma float_of_int_overflow_example: "float_of_int (10 ^ 309) = Inl OverflowError"
  by (rule float_of_int_overflow) simp

lemma py_float_overflow_example: "py_float e (JInt (10 ^ 309)) = Inl OverflowError"
  by (simp only: py_float_def json.case float_of_int_overflow_example)

lemma py_get_obj: "py_get (JObj d) k JNull = Inr (field d k)"
  by (simp add: py_get_def field_def split: option.splits)

lemma entry_step_shaped:
  assumes "entry_shaped entry"
  shows "entry_step e entry qs
           = Inr (if both_present entry
                  then dict_set qs (symbol (entry_quote entry)) (entry_quote entry) else qs)"
proof -
  from assms obtain d where d: "entry = JObj d"
    by (cases entry) (simp_all add: entry_shaped_def)
  from assms d have s: "symbol_shaped (field d ''symbol'')"
    and p: "price_shaped (field d ''regularMarketPrice'')"
    by (simp_all add: entry_shaped_def)
  from s consider "field d ''symbol'' = JNull" | s where "field d ''symbol'' = JStr s"
    by (cases "field d ''symbol''") (auto simp: symbol_shaped_def)
  note sc = this
  from p consider "field d ''regularMarketPrice'' = JNull"
    | i x where "field d ''regularMarketPrice'' = JInt i" "float_of_int i = Inr x"
    | x where "field d ''regularMarketPrice'' = JFloat x"
    by (cases "field d ''regularMarketPrice''") (auto simp: price_shaped_def split: sum.splits)
  then show ?thesis
  proof cases
    case 1
    then show ?thesis
      by (simp add: d entry_step_def py_get_obj both_present_def price_present_def)
  next
    case 2
    from sc show ?thesis
      by cases
        (simp_all add: 2 d entry_step_def py_get_obj both_present_def price_present_def
           symbol_present_def truthy_def py_float_def entry_quote_def)
  next
    case 3
    from sc show ?thesis
      by cases
        (simp_all add: 3 d entry_step_def py_get_obj both_present_def price_present_def
           symbol_present_def truthy_def py_float_def entry_quote_def)
  qed
qed

lemma entries_loop_shaped:
  "\<forall>entry\<in>set entries. entry_shaped entry \<Longrightarrow>
   entries_loop e entries qs = Inr (fold record_quote (filter both_present entries) qs)"
  by (induction entries arbitrary: qs) (simp_all add: entry_step_shaped record_quote_def)

lemma keys_dict_set: "fst ` set (dict_set d k v) = insert k (fst ` set d)"
proof (induction d)
  case Nil
  show ?case by simp
next
  case (Cons a d)
  obtain k' v' where a: "a = (k', v')" by (cases a)
  show ?case
  proof (cases "k' = k")
    case True
    then show ?thesis by (simp add: a)
  next
    case False
    then show ?thesis using Cons.IH by (simp add: a insert_commute)
  qed
qed

lemma distinct_dict_set: "distinct (map fst d) \<Longrightarrow> distinct (map fst (dict_set d k v))"
proof (induction d)
  case Nil
  then show ?case by simp
next
  case (Cons a d)
  obtain k' v' where a: "a = (k', v')" by (cases a)
  have keys: "fst ` set (dict_set d k v) = insert k (fst ` set d)" by (rule keys_dict_set)
  show ?case
  proof (cases "k' = k")
    case True
    then show ?thesis using Cons.prems by (simp add: a)
  next
    case False
    then show ?thesis using Cons keys by (simp add: a)
  qed
qed

lemma set_dict_set: "set (dict_set d k v) \<subseteq> insert (k, v) (set d)"
proof (induction d)
  case Nil
  show ?case by simp
next
  case (Cons a d)
  obtain k' v' where a: "a = (k', v')" by (cases a)
  show ?case
  proof (cases "k' = k")
    case True
    then show ?thesis by (auto simp: a)
  next
    case False
    then show ?thesis using Cons.IH by (auto simp: a)
  qed
qed

lemma keys_fold:
  "fst ` set (fold record_quote es qs) = fst ` set qs \<union> (\<lambda>entry. symbol (entry_quote entry)) ` set es"
  by (induction es arbitrary: qs) (auto simp: record_quote_def keys_dict_set)

lemma distinct_fold:
  "distinct (map fst qs) \<Longrightarrow> distinct (map fst (fold record_quote es qs))"
  by (induction es arbitrary: qs) (simp_all add: record_quote_def distinct_dict_set)

lemma values_fold:
  "set (fold record_quote es qs)
     \<subseteq> set qs \<union> (\<lambda>entry. (symbol (entry_quote entry), entry_quote entry)) ` set es"
proof (induction es arbitrary: qs)
  case Nil
  then show ?case by simp
next
  case (Cons a es)
  have "set (fold record_quote es (record_quote a qs))
          \<subseteq> set (record_quote a qs) \<union> (\<lambda>entry. (symbol (entry_quote entry), entry_quote entry)) ` set es"
    by (rule Cons.IH)
  moreover have "set (record_quote a qs) \<subseteq> insert (symbol (entry_quote a), entry_quote a) (set qs)"
    unfolding record_quote_def by (rule set_dict_set)
  ultimately show ?case by auto
qed

lemma map_of_dict_set: "map_of (dict_set d k v) = (map_of d)(k \<mapsto> v)"
proof (induction d)
  case Nil
  show ?case by simp
next
  case (Cons a d)
  obtain k' v' where a: "a = (k', v')" by (cases a)
  show ?case
  proof (cases "k' = k")
    case True
    then show ?thesis by (auto simp: a fun_eq_iff)
  next
    case False
    then show ?thesis using Cons.IH by (auto simp: a fun_eq_iff)
  qed
qed

lemma map_of_fold:
  "map_of (fold record_quote es qs) k
     = (if filter (\<lambda>entry. symbol (entry_quote entry) = k) es = [] then map_of qs k
        else Some (entry_quote (last (filter (\<lambda>entry. symbol (entry_quote entry) = k) es))))"
proof (induction es rule: rev_induct)
  case Nil
  show ?case by simp
next
  case (snoc x es)
  show ?case
  proof (cases "symbol (entry_quote x) = k")
    case True
    then show ?thesis by (simp add: record_quote_def map_of_dict_set)
  next
    case False
    then show ?thesis using snoc.IH by (simp add: record_quote_def map_of_dict_set)
  qed
qed

lemma entries_for_filter:
  "filter (\<lambda>entry. symbol (entry_quote entry) = k) (filter both_present entries)
     = entries_for k entries"
  by (simp add: entries_for_def conj_commute)

lemma parse_payload_shaped:
  assumes "map_of pd ''quoteResponse'' = Some (JObj qd)"
    and "map_of qd ''result'' = Some (JArr entries)"
    and "\<forall>entry\<in>set entries. entry_shaped entry"
  shows "parse_payload e (JObj pd) = Inr (fold record_quote (filter both_present entries) [])"
  using assms by (simp add: parse_payload_def py_get_def py_iter_def entries_loop_shaped)

lemma fetch_quotes_body:
  assumes "tickers \<noteq> []" and "urlopen e (quote_request tickers) 15 = Inr (Json payload)"
  shows "fst (fetch_quotes e tickers w) = parse_payload e payload"
  using assms by (simp add: fetch_quotes_def Let_def json_load_def)

lemma parse_mock:
  "parse_payload e mock_payload
     = Inr [(''AAPL'', \<lparr>symbol = ''AAPL'', price = 150, currency = JStr ''USD''\<rparr>)]"
  by (simp add: mock_payload_def parse_payload_def py_get_def py_iter_def entry_step_def
        truthy_def py_float_def upper_AAPL)

text \<open>
  C6, as stated: in every response of the form \<open>{quoteResponse: {result: [...]}}\<close> each
  entry with symbol and price present is recorded and every other entry is skipped, no
  error raised. The entry \<open>{symbol: 5, regularMarketPrice: 1}\<close> has both, and on it
  \<open>symbol.upper()\<close> raises AttributeError: nothing is recorded and nothing is skipped.
\<close>

theorem fetch_quotes_partial_counterexample:
  "fst (fetch_quotes env_bad [''AAPL''] world0) = Inl AttributeError"
proof -
  have "urlopen env_bad (quote_request [''AAPL'']) 15 = Inr (Json bad_payload)"
    by (simp add: env_bad_def)
  then have "fst (fetch_quotes env_bad [''AAPL''] world0) = parse_payload env_bad bad_payload"
    by (intro fetch_quotes_body) simp_all
  also have "\<dots> = Inl AttributeError"
    by (simp add: bad_payload_def parse_payload_def py_get_def py_iter_def entry_step_def
          truthy_def)
  finally show ?thesis .
qed

text \<open>
  C6, amended: let the response be an object whose \<open>quoteResponse\<close> is an object whose
  \<open>result\<close> is a list of entries of the promised shape (an object; the symbol a string or
  null or missing; the price a number within the range of a double, or null or missing).
  Then \<open>fetch_quotes\<close> raises no error and returns a mapping with distinct keys, which are
  exactly the uppercased symbols of the entries whose symbol is a non-empty string and whose
  price is not null; under each key it holds the quote of the last such entry with that
  uppercased symbol. Every other entry is skipped. For the mocked response of the
  specification the mapping holds \<open>AAPL\<close> alone, with price 150.0 and currency USD.
\<close>

theorem fetch_quotes_partial:
  "(tickers \<noteq> [] \<and> urlopen e (quote_request tickers) 15 = Inr (Json (JObj pd)) \<and>
    map_of pd ''quoteResponse'' = Some (JObj qd) \<and>
    map_of qd ''result'' = Some (JArr entries) \<and>
    (\<forall>entry\<in>set entries. entry_shaped entry) \<longrightarrow>
      (\<exists>qs. fst (fetch_quotes e tickers w) = Inr qs \<and>
            distinct (map fst qs) \<and>
            fst ` set qs
              = (\<lambda>entry. symbol (entry_quote entry)) ` {entry \<in> set entries. both_present entry} \<and>
            (\<forall>k. map_of qs k
                   = (if entries_for k entries = [] then None
                      else Some (entry_quote (last (entries_for k entries))))))) \<and>
   (urlopen e (quote_request [''AAPL'', ''BAD'']) 15 = Inr (Json mock_payload) \<longrightarrow>
      fst (fetch_quotes e [''AAPL'', ''BAD''] w)
        = Inr [(''AAPL'', \<lparr>symbol = ''AAPL'', price = 150, currency = JStr ''USD''\<rparr>)])"
proof (intro conjI impI)
  assume a: "tickers \<noteq> [] \<and> urlopen e (quote_request tickers) 15 = Inr (Json (JObj pd)) \<and>
    map_of pd ''quoteResponse'' = Some (JObj qd) \<and>
    map_of qd ''result'' = Some (JArr entries) \<and>
    (\<forall>entry\<in>set entries. entry_shaped entry)"
  let ?qs = "fold record_quote (filter both_present entries) []"
  have r: "fst (fetch_quotes e tickers w) = Inr ?qs"
    using a by (simp add: fetch_quotes_body parse_payload_shaped)
  have d: "distinct (map fst ?qs)"
    by (rule distinct_fold) simp
  have k: "fst ` set ?qs
             = (\<lambda>entry. symbol (entry_quote entry)) ` {entry \<in> set entries. both_present entry}"
    by (simp add: keys_fold)
  have v: "\<forall>k. map_of ?qs k
                   = (if entries_for k entries = [] then None
                      else Some (entry_quote (last (entries_for k entries))))"
    unfolding map_of_fold entries_for_filter by simp
  from r d k v
  show "\<exists>qs. fst (fetch_quotes e tickers w) = Inr qs \<and>
            distinct (map fst qs) \<and>
            fst ` set qs
              = (\<lambda>entry. symbol (entry_quote entry)) ` {entry \<in> set entries. both_present entry} \<and>
            (\<forall>k. map_of qs k
                   = (if entries_for k entries = [] then None
                      else Some (entry_quote (last (entries_for k entries)))))"
    by (intro exI [of _ ?qs] conjI)
next
  assume "urlopen e (quote_request [''AAPL'', ''BAD'']) 15 = Inr (Json mock_payload)"
  then show "fst (fetch_quotes e [''AAPL'', ''BAD''] w)
        = Inr [(''AAPL'', \<lparr>symbol = ''AAPL'', price = 150, currency = JStr ''USD''\<rparr>)]"
    by (simp add: fetch_quotes_body parse_mock)
qed

theorem fetch_quotes_partial_witness:
  "(\<exists>qs. fst (fetch_quotes env_repeat [''AAPL'', ''BAD''] world0) = Inr qs \<and>
         distinct (map fst qs) \<and>
         fst ` set qs = {''AAPL''} \<and>
         map_of qs ''AAPL'' = Some \<lparr>symbol = ''AAPL'', price = 151, currency = JNull\<rparr> \<and>
         map_of qs ''BAD'' = None) \<and>
   fst (fetch_quotes env_mock [''AAPL'', ''BAD''] world0)
     = Inr [(''AAPL'', \<lparr>symbol = ''AAPL'', price = 150, currency = JStr ''USD''\<rparr>)]"
proof -
  let ?e1 = "JObj [(''symbol'', JStr ''AAPL''), (''regularMarketPrice'', JFloat 150),
                   (''currency'', JStr ''USD'')]"
  let ?e2 = "JObj [(''symbol'', JStr ''BAD'')]"
  let ?e3 = "JObj [(''symbol'', JStr ''aapl''), (''regularMarketPrice'', JInt 151)]"
  let ?qd = "[(''result'', JArr [?e1, ?e2, ?e3])]"
  let ?pd = "[(''quoteResponse'', JObj ?qd)]"
  have n: "[''AAPL'', ''BAD''] \<noteq> []"
    by simp
  have u: "urlopen env_mock (quote_request [''AAPL'', ''BAD'']) 15 = Inr (Json mock_payload)"
    by (simp add: env_mock_def)
  have u': "urlopen env_repeat (quote_request [''AAPL'', ''BAD'']) 15 = Inr (Json (JObj ?pd))"
    by (simp add: env_repeat_def repeat_payload_def)
  have m1: "map_of ?pd ''quoteResponse'' = Some (JObj ?qd)"
    by simp
  have m2: "map_of ?qd ''result'' = Some (JArr [?e1, ?e2, ?e3])"
    by simp
  have sh: "\<forall>entry\<in>set [?e1, ?e2, ?e3]. entry_shaped entry"
    by (simp add: entry_shaped_def field_def symbol_shaped_def price_shaped_def
          float_of_int_151)
  have b: "both_present ?e1" "\<not> both_present ?e2" "both_present ?e3"
    by (simp_all add: both_present_def field_def symbol_present_def price_present_def)
  have q1: "symbol (entry_quote ?e1) = ''AAPL''"
    by (simp add: entry_quote_def field_def upper_AAPL)
  have q3: "entry_quote ?e3 = \<lparr>symbol = ''AAPL'', price = 151, currency = JNull\<rparr>"
    by (simp add: entry_quote_def field_def upper_aapl float_of_int_151)
  have q3s: "symbol (entry_quote ?e3) = ''AAPL''"
    by (simp add: q3)
  have im: "(\<lambda>entry. symbol (entry_quote entry)) ` {entry \<in> set [?e1, ?e2, ?e3]. both_present entry}
              = {''AAPL''}"
  proof -
    have "{entry \<in> set [?e1, ?e2, ?e3]. both_present entry} = {?e1, ?e3}"
      using b by auto
    then show ?thesis
      by (simp add: q1 q3s)
  qed
  have fa: "entries_for ''AAPL'' [?e1, ?e2, ?e3] = [?e1, ?e3]"
    by (simp add: entries_for_def b q1 q3s)
  have fb: "entries_for ''BAD'' [?e1, ?e2, ?e3] = []"
    by (simp add: entries_for_def b q1 q3s)
  note inst = fetch_quotes_partial [of "[''AAPL'', ''BAD'']" env_repeat ?pd ?qd "[?e1, ?e2, ?e3]" world0]
  have "\<exists>qs. fst (fetch_quotes env_repeat [''AAPL'', ''BAD''] world0) = Inr qs \<and>
            distinct (map fst qs) \<and>
            fst ` set qs
              = (\<lambda>entry. symbol (entry_quote entry))
                  ` {entry \<in> set [?e1, ?e2, ?e3]. both_present entry} \<and>
            (\<forall>k. map_of qs k
                   = (if entries_for k [?e1, ?e2, ?e3] = [] then None
                      else Some (entry_quote (last (entries_for k [?e1, ?e2, ?e3])))))"
    by (rule mp [OF conjunct1 [OF inst]]) (intro conjI n u' m1 m2 sh)
  then obtain qs where r: "fst (fetch_quotes env_repeat [''AAPL'', ''BAD''] world0) = Inr qs"
    and d: "distinct (map fst qs)"
    and k: "fst ` set qs
              = (\<lambda>entry. symbol (entry_quote entry))
                  ` {entry \<in> set [?e1, ?e2, ?e3]. both_present entry}"
    and v: "\<forall>k. map_of qs k
                   = (if entries_for k [?e1, ?e2, ?e3] = [] then None
                      else Some (entry_quote (last (entries_for k [?e1, ?e2, ?e3]))))"
    by (elim exE conjE)
  have va: "map_of qs ''AAPL'' = Some \<lparr>symbol = ''AAPL'', price = 151, currency = JNull\<rparr>"
    using spec [OF v, of "''AAPL''"] by (simp add: fa q3)
  have vb: "map_of qs ''BAD'' = None"
    using spec [OF v, of "''BAD''"] by (simp add: fb)
  have k': "fst ` set qs = {''AAPL''}"
    using k unfolding im .
  have g: "\<exists>qs. fst (fetch_quotes env_repeat [''AAPL'', ''BAD''] world0) = Inr qs \<and>
         distinct (map fst qs) \<and>
         fst ` set qs = {''AAPL''} \<and>
         map_of qs ''AAPL'' = Some \<lparr>symbol = ''AAPL'', price = 151, currency = JNull\<rparr> \<and>
         map_of qs ''BAD'' = None"
    using r d k' va vb by (intro exI [of _ qs] conjI)
  have m: "fst (fetch_quotes env_mock [''AAPL'', ''BAD''] world0)
        = Inr [(''AAPL'', \<lparr>symbol = ''AAPL'', price = 150, currency = JStr ''USD''\<rparr>)]"
    by (rule mp [OF conjunct2 [OF fetch_quotes_partial [of "[''AAPL'', ''BAD'']" env_mock "[]" "[]" "[]" world0]] u])
  from g m show ?thesis by (intro conjI)
qed

end
